theory Spec2Isabelle
  imports Complex_Main
begin

section \<open>Python values, truthiness and exceptions\<close>

text \<open>
  The connector \<^verbatim>\<open>erpnext_integrations/connectors/shopify_connection.py\<close> reads a decoded
  JSON order with \<^verbatim>\<open>d.get(k)\<close> (absent key gives \<^verbatim>\<open>None\<close>) and \<^verbatim>\<open>d[k]\<close> (absent key raises).
  A payload dictionary is a record whose fields are options: \<open>None\<close> is the absent key.
  Every exception the Python can raise is a value of \<open>exn\<close>.
\<close>

datatype exn =
    KeyError string
  | TypeError string
  | AttributeError string
  | ValidationError string
  | DoesNotExistError string
  | FrameworkError string

text \<open>Python truthiness of the values that the connector tests with \<^verbatim>\<open>if\<close>, \<^verbatim>\<open>not\<close> and \<^verbatim>\<open>or\<close>.\<close>

definition truthy_int :: "int option \<Rightarrow> bool" where
  "truthy_int x = (case x of None \<Rightarrow> False | Some i \<Rightarrow> i \<noteq> 0)"

definition truthy_str :: "string option \<Rightarrow> bool" where
  "truthy_str x = (case x of None \<Rightarrow> False | Some s \<Rightarrow> s \<noteq> [])"

definition truthy_list :: "'a list option \<Rightarrow> bool" where
  "truthy_list x = (case x of None \<Rightarrow> False | Some xs \<Rightarrow> xs \<noteq> [])"

text \<open>\<^verbatim>\<open>a or b\<close>: the left operand when it is truthy, the right operand otherwise.\<close>

definition or_int :: "int option \<Rightarrow> int option \<Rightarrow> int option" where
  "or_int a b = (if truthy_int a then a else b)"

definition or_str :: "string option \<Rightarrow> string \<Rightarrow> string" where
  "or_str a b = (if truthy_str a then the a else b)"

definition or_list :: "'a list option \<Rightarrow> 'a list option \<Rightarrow> 'a list option" where
  "or_list a b = (if truthy_list a then a else b)"

text \<open>Sequencing of computations that only read the database and may raise.\<close>

definition and_then :: "exn + 'a \<Rightarrow> ('a \<Rightarrow> exn + 'b) \<Rightarrow> exn + 'b" where
  "and_then m f = (case m of Inl e \<Rightarrow> Inl e | Inr x \<Rightarrow> f x)"

text \<open>\<^verbatim>\<open>d[k]\<close> on a key that may be absent, and iteration over a value that may be \<^verbatim>\<open>None\<close>.\<close>

definition subscript :: "string \<Rightarrow> 'a option \<Rightarrow> exn + 'a" where
  "subscript k v = (case v of None \<Rightarrow> Inl (KeyError k) | Some x \<Rightarrow> Inr x)"

definition iter :: "'a list option \<Rightarrow> exn + 'a list" where
  "iter v = (case v of None \<Rightarrow> Inl (TypeError ''NoneType object is not iterable'') | Some xs \<Rightarrow> Inr xs)"

section \<open>The order payload\<close>

text \<open>
  Tax lines and shipping charges are both dictionaries read through the keys
  \<^verbatim>\<open>title\<close>, \<^verbatim>\<open>price\<close>, \<^verbatim>\<open>rate\<close> and \<^verbatim>\<open>tax_lines\<close>; the connector puts a shipping charge
  where a tax line is expected, so they share one type.
\<close>

datatype tax_line = Tax_Line
  (title: "string option")
  (price: "rat option")
  (rate: "rat option")
  (tax_lines: "tax_line list option")

record line_item =
  li_id :: "int option"
  product_id :: "int option"
  variant_id :: "int option"
  li_title :: "string option"
  li_name :: "string option"
  li_price :: "rat option"
  quantity :: "int option"
  uom :: "string option"

record discount_code =
  amount :: "rat option"

record fulfillment =
  f_id :: "int option"
  order_id :: "int option"
  f_created_at :: "string option"
  f_line_items :: "line_item list option"

record customer_payload =
  c_id :: "int option"
  c_email :: "string option"

record order =
  o_id :: "int option"
  o_name :: "string option"
  o_customer :: "customer_payload option"
  line_items :: "line_item list option"
  financial_status :: "string option"
  fulfillments :: "fulfillment list option"
  discount_codes :: "discount_code list option"
  o_tax_lines :: "tax_line list option"
  taxes_included :: "bool option"
  shipping_lines :: "tax_line list option"
  created_at :: "string option"

section \<open>The database of the ERP\<close>

datatype doctype = Sales_Order | Sales_Invoice | Delivery_Note | Payment_Entry

text \<open>A document name: the naming series and the running number the series gave.\<close>

type_synonym docname = "string \<times> nat"

datatype tax_description = Percent_Of string rat | Titled string

record tax_row =
  charge_type :: string
  account_head :: string
  description :: tax_description
  tr_rate :: "rat option"
  tax_amount :: "rat option"
  included_in_print_rate :: "nat option"
  tr_cost_center :: "string option"

record item_row =
  item_code :: "string option"
  item_name :: "string option"
  ir_rate :: "rat option"
  delivery_date :: "string option"
  qty :: "int option"
  stock_uom :: string
  ir_warehouse :: "string option"
  ir_cost_center :: "string option"
  allow_zero_valuation_rate :: nat

record document =
  doctype :: doctype
  name :: docname
  docstatus :: nat
  naming_series :: string
  shopify_order_id :: "int option"
  shopify_order_number :: "string option"
  shopify_fulfillment_id :: "int option"
  customer :: "string option"
  company :: "string option"
  selling_price_list :: "string option"
  posting_date :: "string option"
  set_posting_time :: nat
  items :: "item_row list"
  taxes :: "tax_row list"
  discount_amount :: rat
  per_billed :: rat
  status :: "string option"
  is_return :: bool
  return_against :: "docname option"
  made_from :: "docname option"
  bank_account :: "string option"
  reference_no :: "docname option"
  reference_date :: "string option"

record customer_doc =
  customer_name :: string
  shopify_customer_id :: "int option"

record item_doc =
  i_item_code :: string
  i_item_name :: string
  shopify_product_id :: "int option"
  shopify_variant_id :: "int option"

record tax_account_row =
  parent :: string
  shopify_tax :: string
  tax_account :: string

record shopify_settings =
  warehouse :: "string option"
  sales_order_series :: "string option"
  sales_invoice_series :: "string option"
  delivery_note_series :: "string option"
  default_customer :: "string option"
  s_company :: "string option"
  price_list :: "string option"
  cost_center :: "string option"
  cash_bank_account :: "string option"
  sync_sales_invoice :: int
  sync_delivery_note :: int

datatype log_status = Success | Error

record shopify_log =
  log_status :: log_status
  response_data :: order
  exception :: "exn option"
  log_request_id :: "string option"

record tables =
  tabCustomer :: "customer_doc list"
  tabItem :: "item_doc list"
  tabShopify_Tax_Account :: "tax_account_row list"
  settings :: shopify_settings
  documents :: "document list"
  tabShopify_Log :: "shopify_log list"
  series :: nat


text \<open>
  The session: the tables as the running transaction sees them (\<open>db\<close>), the tables as last
  committed, and the ambient \<^verbatim>\<open>frappe.flags.request_id\<close> and session user.
\<close>

record state =
  db :: tables
  committed :: tables
  request_id :: "string option"
  session_user :: string

text \<open>
  A statement of the connector: it runs in a state and either raises or returns a value;
  in both cases the writes made so far stay in the running transaction.
\<close>

type_synonym 'a prog = "state \<Rightarrow> (exn + 'a) \<times> state"

definition return :: "'a \<Rightarrow> 'a prog" where
  "return x s = (Inr x, s)"

definition raise :: "exn \<Rightarrow> 'a prog" where
  "raise e s = (Inl e, s)"

definition seq :: "'a prog \<Rightarrow> ('a \<Rightarrow> 'b prog) \<Rightarrow> 'b prog" where
  "seq m f s = (case m s of (Inl e, s') \<Rightarrow> (Inl e, s') | (Inr x, s') \<Rightarrow> f x s')"

text \<open>\<^verbatim>\<open>try: body  except Exception as e: handler(e)  else: orelse(x)\<close>.\<close>

definition try_except_else :: "'a prog \<Rightarrow> (exn \<Rightarrow> 'b prog) \<Rightarrow> ('a \<Rightarrow> 'b prog) \<Rightarrow> 'b prog" where
  "try_except_else body handler orelse s =
     (case body s of (Inl e, s') \<Rightarrow> handler e s' | (Inr x, s') \<Rightarrow> orelse x s')"

text \<open>A computation that only reads the running transaction.\<close>

definition reading :: "(tables \<Rightarrow> exn + 'a) \<Rightarrow> 'a prog" where
  "reading f s = (f (db s), s)"

definition modify_db :: "(tables \<Rightarrow> tables) \<Rightarrow> unit prog" where
  "modify_db f s = (Inr (), s\<lparr>db := f (db s)\<rparr>)"

section \<open>The host framework\<close>

text \<open>
  The persistence layer, the document mappers and the validation rules of the ERP are not part
  of the connector. Their effects on success are fixed below; whether a call raises is left to
  the parameter \<open>fails\<close>, which sees the call and the running transaction. What
  \<^verbatim>\<open>create_customer\<close> and \<^verbatim>\<open>make_item\<close> insert, and the clock, are parameters as well.
\<close>

datatype fw_op =
    Create_Customer
  | Make_Item
  | Make_Sales_Invoice
  | Make_Delivery_Note
  | Make_Sales_Return
  | Get_Payment_Entry
  | Insert doctype
  | Submit doctype
  | Cancel doctype

record framework =
  fails :: "fw_op \<Rightarrow> tables \<Rightarrow> exn option"
  nowdate :: string
  customer_docs :: "customer_payload \<Rightarrow> shopify_settings \<Rightarrow> customer_doc list"
  item_docs :: "string option \<Rightarrow> line_item \<Rightarrow> item_doc list"

definition framework_call :: "framework \<Rightarrow> fw_op \<Rightarrow> unit prog" where
  "framework_call fw op s =
     (case fails fw op (db s) of Some e \<Rightarrow> (Inl e, s) | None \<Rightarrow> (Inr (), s))"

text \<open>
  A filter \<^verbatim>\<open>{field: value}\<close> of \<^verbatim>\<open>frappe.db.get_value\<close> compares a column with a value;
  a \<^verbatim>\<open>None\<close> value compares with SQL \<^verbatim>\<open>NULL\<close> and selects no row.
\<close>

definition field_is :: "'a option \<Rightarrow> 'a option \<Rightarrow> bool" where
  "field_is col v = (case v of None \<Rightarrow> False | Some x \<Rightarrow> col = Some x)"

text \<open>\<^verbatim>\<open>frappe.db.get_value(doctype, filters)\<close>: the name of the first row that passes the filters.\<close>

definition get_value :: "tables \<Rightarrow> doctype \<Rightarrow> (document \<Rightarrow> bool) \<Rightarrow> docname option" where
  "get_value t dt filters = map_option name (find (\<lambda>d. doctype d = dt \<and> filters d) (documents t))"

definition get_doc :: "doctype \<Rightarrow> docname \<Rightarrow> tables \<Rightarrow> exn + document" where
  "get_doc dt n t =
     (case find (\<lambda>d. doctype d = dt \<and> name d = n) (documents t) of
        None \<Rightarrow> Inl (DoesNotExistError (fst n))
      | Some d \<Rightarrow> Inr d)"

definition item_value :: "tables \<Rightarrow> (item_doc \<Rightarrow> bool) \<Rightarrow> string option" where
  "item_value t filters = map_option i_item_code (find filters (tabItem t))"

definition customer_value :: "tables \<Rightarrow> (customer_doc \<Rightarrow> bool) \<Rightarrow> string option" where
  "customer_value t filters = map_option customer_name (find filters (tabCustomer t))"

definition commit :: "unit prog" where
  "commit s = (Inr (), s\<lparr>committed := db s\<rparr>)"

definition rollback :: "unit prog" where
  "rollback s = (Inr (), s\<lparr>db := committed s\<rparr>)"

section \<open>Lookups and builders of the connector\<close>

definition get_tax_account_head :: "tables \<Rightarrow> tax_line \<Rightarrow> exn + string" where
  "get_tax_account_head t tax =
     (case title tax of
        None \<Rightarrow> Inl (AttributeError ''NoneType object has no attribute encode'')
      | Some tax_title \<Rightarrow>
          (let account = map_option tax_account
                 (find (\<lambda>r. parent r = ''Shopify Settings'' \<and> shopify_tax r = tax_title)
                    (tabShopify_Tax_Account t))
           in if \<not> truthy_str account
              then Inl (ValidationError (''Tax Account not specified for Shopify Tax '' @ tax_title))
              else Inr (the account)))"

text \<open>The body of the inner loop of \<^verbatim>\<open>update_taxes_with_shipping_lines\<close>, over \<^verbatim>\<open>shipping_tax_lines\<close>.\<close>

fun append_actual_charges ::
  "tables \<Rightarrow> shopify_settings \<Rightarrow> tax_row list \<Rightarrow> tax_line list \<Rightarrow> exn + tax_row list" where
  "append_actual_charges t shopify_settings rows [] = Inr rows"
| "append_actual_charges t shopify_settings rows (tax # rest) =
     and_then (get_tax_account_head t tax) (\<lambda>head.
     and_then (subscript ''title'' (title tax)) (\<lambda>ti.
     and_then (subscript ''price'' (price tax)) (\<lambda>p.
       append_actual_charges t shopify_settings
         (rows @ [\<lparr>charge_type = ''Actual'', account_head = head, description = Titled ti,
                    tr_rate = None, tax_amount = Some p, included_in_print_rate = None,
                    tr_cost_center = cost_center shopify_settings\<rparr>])
         rest)))"

text \<open>\<^verbatim>\<open>shipping_tax_lines = [shipping_charge] or shipping_charge.get('tax_lines')\<close>\<close>

definition shipping_tax_lines :: "tax_line \<Rightarrow> tax_line list option" where
  "shipping_tax_lines shipping_charge = or_list (Some [shipping_charge]) (tax_lines shipping_charge)"

fun shipping_charges_loop ::
  "tables \<Rightarrow> shopify_settings \<Rightarrow> tax_row list \<Rightarrow> tax_line list \<Rightarrow> exn + tax_row list" where
  "shipping_charges_loop t shopify_settings rows [] = Inr rows"
| "shipping_charges_loop t shopify_settings rows (shipping_charge # rest) =
     and_then (iter (shipping_tax_lines shipping_charge)) (\<lambda>lines.
     and_then (append_actual_charges t shopify_settings rows lines) (\<lambda>rows'.
       shipping_charges_loop t shopify_settings rows' rest))"

definition update_taxes_with_shipping_lines ::
  "tables \<Rightarrow> tax_row list \<Rightarrow> tax_line list option \<Rightarrow> shopify_settings \<Rightarrow> exn + tax_row list" where
  "update_taxes_with_shipping_lines t rows charges shopify_settings =
     and_then (iter charges) (shipping_charges_loop t shopify_settings rows)"

fun order_tax_rows ::
  "tables \<Rightarrow> order \<Rightarrow> shopify_settings \<Rightarrow> tax_row list \<Rightarrow> tax_line list \<Rightarrow> exn + tax_row list" where
  "order_tax_rows t shopify_order shopify_settings rows [] = Inr rows"
| "order_tax_rows t shopify_order shopify_settings rows (tax # rest) =
     and_then (get_tax_account_head t tax) (\<lambda>head.
       (case rate tax of
          None \<Rightarrow> Inl (TypeError ''unsupported operand type(s) for *: NoneType and float'')
        | Some r \<Rightarrow>
            order_tax_rows t shopify_order shopify_settings
              (rows @ [\<lparr>charge_type = ''On Net Total'', account_head = head,
                         description = Percent_Of (the (title tax)) (r * 100),
                         tr_rate = Some (r * 100), tax_amount = None,
                         included_in_print_rate =
                           Some (if taxes_included shopify_order = Some True then 1 else 0),
                         tr_cost_center = cost_center shopify_settings\<rparr>])
              rest))"

definition get_order_taxes :: "tables \<Rightarrow> order \<Rightarrow> shopify_settings \<Rightarrow> exn + tax_row list" where
  "get_order_taxes t shopify_order shopify_settings =
     and_then (iter (o_tax_lines shopify_order)) (\<lambda>lines.
     and_then (order_tax_rows t shopify_order shopify_settings [] lines) (\<lambda>rows.
       update_taxes_with_shipping_lines t rows (shipping_lines shopify_order) shopify_settings))"

definition get_item_code :: "tables \<Rightarrow> line_item \<Rightarrow> string option" where
  "get_item_code t shopify_item =
     (let item_code = item_value t (\<lambda>i. field_is (shopify_variant_id i) (variant_id shopify_item));
          item_code = (if \<not> truthy_str item_code
             then item_value t (\<lambda>i. field_is (shopify_product_id i)
                    (or_int (product_id shopify_item) (li_id shopify_item)))
             else item_code);
          item_code = (if \<not> truthy_str item_code
             then item_value t (\<lambda>i. field_is (Some (i_item_name i)) (li_title shopify_item))
             else item_code)
      in item_code)"

definition get_order_items ::
  "framework \<Rightarrow> tables \<Rightarrow> line_item list option \<Rightarrow> shopify_settings \<Rightarrow> exn + item_row list" where
  "get_order_items fw t order_items shopify_settings =
     and_then (iter order_items) (\<lambda>its. Inr (map (\<lambda>shopify_item.
       \<lparr>item_code = get_item_code t shopify_item,
        item_name = li_name shopify_item,
        ir_rate = li_price shopify_item,
        delivery_date = Some (nowdate fw),
        qty = quantity shopify_item,
        stock_uom = or_str (uom shopify_item) ''Nos'',
        ir_warehouse = warehouse shopify_settings,
        ir_cost_center = None,
        allow_zero_valuation_rate = 0\<rparr>) its))"

text \<open>\<^verbatim>\<open>flt\<close>: the number itself, and zero for a value that is no number. Amounts are exact rationals.\<close>

definition flt :: "rat option \<Rightarrow> rat" where
  "flt v = (case v of None \<Rightarrow> 0 | Some x \<Rightarrow> x)"

definition get_discounted_amount :: "order \<Rightarrow> exn + rat" where
  "get_discounted_amount order =
     and_then (iter (discount_codes order)) (\<lambda>codes.
       Inr (foldl (\<lambda>acc discount. acc + flt (amount discount)) 0 codes))"


section \<open>Documents: insert, submit, cancel, and the mappers\<close>

definition new_document :: "doctype \<Rightarrow> document" where
  "new_document dt =
     \<lparr>doctype = dt, name = ([], 0), docstatus = 0, naming_series = [],
      shopify_order_id = None, shopify_order_number = None, shopify_fulfillment_id = None,
      customer = None, company = None, selling_price_list = None, posting_date = None,
      set_posting_time = 0, items = [], taxes = [], discount_amount = 0, per_billed = 0,
      status = None, is_return = False, return_against = None, made_from = None,
      bank_account = None, reference_no = None, reference_date = None\<rparr>"

text \<open>
  Modelled from the spec: the validation of a Sales Order by the ERP (erpnext's
  \<^verbatim>\<open>selling/doctype/sales_order\<close>, not under src/): a line whose item is unresolved aborts
  the creation of the order with an error.
\<close>

definition validate_document :: "document \<Rightarrow> unit prog" where
  "validate_document doc =
     (if doctype doc = Sales_Order \<and> (\<exists>row \<in> set (items doc). \<not> truthy_str (item_code row))
      then raise (ValidationError ''Item not found'')
      else return ())"

text \<open>A stored document is a new row; the naming series moves on.\<close>

definition add_document :: "document \<Rightarrow> tables \<Rightarrow> tables" where
  "add_document doc t = t\<lparr>documents := documents t @ [doc], series := Suc (series t)\<rparr>"

definition store_new :: "document \<Rightarrow> document prog" where
  "store_new doc s =
     (let doc' = doc\<lparr>name := (naming_series doc, series (db s))\<rparr>
      in (Inr doc', s\<lparr>db := add_document doc' (db s)\<rparr>))"

text \<open>\<^verbatim>\<open>doc.insert()\<close>, and \<^verbatim>\<open>doc.save()\<close> of a document not yet stored.\<close>

definition insert_doc :: "framework \<Rightarrow> document \<Rightarrow> document prog" where
  "insert_doc fw doc =
     seq (framework_call fw (Insert (doctype doc))) (\<lambda>_.
     seq (validate_document doc) (\<lambda>_.
       store_new doc))"

definition set_docstatus :: "doctype \<Rightarrow> docname \<Rightarrow> nat \<Rightarrow> tables \<Rightarrow> tables" where
  "set_docstatus dt n v t =
     t\<lparr>documents := map (\<lambda>d. if doctype d = dt \<and> name d = n then d\<lparr>docstatus := v\<rparr> else d)
                        (documents t)\<rparr>"

text \<open>\<^verbatim>\<open>doc.submit()\<close>\<close>

definition submit :: "framework \<Rightarrow> document \<Rightarrow> document prog" where
  "submit fw doc =
     seq (framework_call fw (Submit (doctype doc))) (\<lambda>_.
     seq (modify_db (set_docstatus (doctype doc) (name doc) 1)) (\<lambda>_.
       return (doc\<lparr>docstatus := 1\<rparr>)))"

text \<open>\<^verbatim>\<open>doc.cancel()\<close>\<close>

definition cancel :: "framework \<Rightarrow> document \<Rightarrow> unit prog" where
  "cancel fw doc =
     seq (framework_call fw (Cancel (doctype doc))) (\<lambda>_.
       modify_db (set_docstatus (doctype doc) (name doc) 2))"

text \<open>
  Modelled from the spec: \<^verbatim>\<open>make_sales_invoice\<close> and \<^verbatim>\<open>make_delivery_note\<close> of erpnext's
  \<^verbatim>\<open>selling/doctype/sales_order/sales_order.py\<close> (not under src/): a new, unsaved document
  of the target type made from the named Sales Order, carrying its customer, company and lines.
\<close>

definition mapped_doc :: "doctype \<Rightarrow> document \<Rightarrow> document" where
  "mapped_doc dt source =
     (new_document dt)\<lparr>customer := customer source, company := company source,
        selling_price_list := selling_price_list source, items := items source,
        taxes := taxes source, discount_amount := discount_amount source,
        made_from := Some (name source)\<rparr>"

definition make_sales_invoice :: "framework \<Rightarrow> docname \<Rightarrow> document prog" where
  "make_sales_invoice fw source_name =
     seq (framework_call fw Make_Sales_Invoice) (\<lambda>_.
     seq (reading (get_doc Sales_Order source_name)) (\<lambda>source.
       return (mapped_doc Sales_Invoice source)))"

definition make_delivery_note :: "framework \<Rightarrow> docname \<Rightarrow> document prog" where
  "make_delivery_note fw source_name =
     seq (framework_call fw Make_Delivery_Note) (\<lambda>_.
     seq (reading (get_doc Sales_Order source_name)) (\<lambda>source.
       return (mapped_doc Delivery_Note source)))"

text \<open>
  Modelled from the spec: \<^verbatim>\<open>make_sales_return\<close> of erpnext's
  \<^verbatim>\<open>accounts/doctype/sales_invoice/sales_invoice.py\<close> (not under src/): a new, unsaved return
  invoice that references the named Sales Invoice. The spec keys the Sales Invoice by the
  external order id and has the return invoice refer to it; the return itself carries no
  external order id.
\<close>

definition make_sales_return :: "framework \<Rightarrow> docname \<Rightarrow> document prog" where
  "make_sales_return fw source_name =
     seq (framework_call fw Make_Sales_Return) (\<lambda>_.
     seq (reading (get_doc Sales_Invoice source_name)) (\<lambda>source.
       return ((mapped_doc Sales_Invoice source)\<lparr>is_return := True,
                 return_against := Some (name source)\<rparr>)))"

text \<open>
  Modelled from the spec: \<^verbatim>\<open>get_payment_entry\<close> of erpnext's
  \<^verbatim>\<open>accounts/doctype/payment_entry/payment_entry.py\<close> (not under src/): a new, unsaved
  Payment Entry that settles the named document from the given bank account.
\<close>

definition get_payment_entry :: "framework \<Rightarrow> doctype \<Rightarrow> docname \<Rightarrow> string option \<Rightarrow> document prog" where
  "get_payment_entry fw dt dn account =
     seq (framework_call fw Get_Payment_Entry) (\<lambda>_.
     seq (reading (get_doc dt dn)) (\<lambda>source.
       return ((new_document Payment_Entry)\<lparr>customer := customer source,
                 company := company source, made_from := Some (name source),
                 bank_account := account\<rparr>)))"

text \<open>
  Modelled from the spec: \<^verbatim>\<open>create_customer\<close> and \<^verbatim>\<open>make_item\<close> of erpnext's
  \<^verbatim>\<open>shopify_settings/sync_customer.py\<close> and \<^verbatim>\<open>sync_product.py\<close> (not under src/): the
  missing master records are created on demand; which records, the framework says.
\<close>

definition create_customer :: "framework \<Rightarrow> customer_payload option \<Rightarrow> shopify_settings \<Rightarrow> unit prog" where
  "create_customer fw payload shopify_settings =
     seq (framework_call fw Create_Customer) (\<lambda>_.
       (case payload of
          None \<Rightarrow> raise (AttributeError ''NoneType object has no attribute get'')
        | Some c \<Rightarrow> modify_db (\<lambda>t. t\<lparr>tabCustomer := tabCustomer t @ customer_docs fw c shopify_settings\<rparr>)))"

definition make_item :: "framework \<Rightarrow> string option \<Rightarrow> line_item \<Rightarrow> unit prog" where
  "make_item fw wh shopify_item =
     seq (framework_call fw Make_Item) (\<lambda>_.
       modify_db (\<lambda>t. t\<lparr>tabItem := tabItem t @ item_docs fw wh shopify_item\<rparr>))"

text \<open>
  Modelled from the spec: \<^verbatim>\<open>make_shopify_log\<close> of erpnext's
  \<^verbatim>\<open>shopify_log/shopify_log.py\<close> (not under src/): one log record per processing attempt, with
  the status, the raw payload and the exception, appended to the audit trail and committed;
  with \<^verbatim>\<open>rollback=True\<close> the running transaction is rolled back first.
\<close>

definition make_shopify_log :: "log_status \<Rightarrow> order \<Rightarrow> exn option \<Rightarrow> bool \<Rightarrow> unit prog" where
  "make_shopify_log st payload e rb =
     seq (if rb then rollback else return ()) (\<lambda>_.
     seq (\<lambda>s. modify_db (\<lambda>t. t\<lparr>tabShopify_Log := tabShopify_Log t @
               [\<lparr>log_status = st, response_data = payload, exception = e,
                 log_request_id = request_id s\<rparr>]\<rparr>) s) (\<lambda>_.
       commit))"

definition set_user :: "string \<Rightarrow> unit prog" where
  "set_user u s = (Inr (), s\<lparr>session_user := u\<rparr>)"

definition set_request_id :: "string option \<Rightarrow> unit prog" where
  "set_request_id r s = (Inr (), s\<lparr>request_id := r\<rparr>)"

definition get_single :: "shopify_settings prog" where
  "get_single s = (Inr (settings (db s)), s)"


section \<open>The connector\<close>

definition validate_customer :: "framework \<Rightarrow> order \<Rightarrow> shopify_settings \<Rightarrow> unit prog" where
  "validate_customer fw order shopify_settings =
     (let customer_id = (case o_customer order of None \<Rightarrow> None | Some c \<Rightarrow> c_id c)
      in if truthy_int customer_id
         then seq (reading (\<lambda>t. Inr (customer_value t (\<lambda>c. field_is (shopify_customer_id c) customer_id))))
                (\<lambda>found. if \<not> truthy_str found
                           then create_customer fw (o_customer order) shopify_settings
                           else return ())
         else return ())"

fun validate_item_loop :: "framework \<Rightarrow> shopify_settings \<Rightarrow> line_item list \<Rightarrow> unit prog" where
  "validate_item_loop fw shopify_settings [] = return ()"
| "validate_item_loop fw shopify_settings (item # rest) =
     seq (let pid = or_int (product_id item) (li_id item)
          in seq (reading (\<lambda>t. Inr (item_value t (\<lambda>i. field_is (shopify_product_id i) pid))))
               (\<lambda>found. if truthy_int pid \<and> \<not> truthy_str found
                          then make_item fw (warehouse shopify_settings) item
                          else return ()))
       (\<lambda>_. validate_item_loop fw shopify_settings rest)"

definition validate_item :: "framework \<Rightarrow> order \<Rightarrow> shopify_settings \<Rightarrow> unit prog" where
  "validate_item fw order shopify_settings =
     seq (reading (\<lambda>t. iter (line_items order))) (validate_item_loop fw shopify_settings)"

definition or_opt :: "string option \<Rightarrow> string option \<Rightarrow> string option" where
  "or_opt a b = (if truthy_str a then a else b)"

definition create_sales_order ::
  "framework \<Rightarrow> order \<Rightarrow> shopify_settings \<Rightarrow> string option \<Rightarrow> document prog" where
  "create_sales_order fw shopify_order shopify_settings company_arg =
     seq (reading (\<lambda>t. Inr (customer_value t (\<lambda>c. field_is (shopify_customer_id c)
            (case o_customer shopify_order of None \<Rightarrow> None | Some c \<Rightarrow> c_id c))))) (\<lambda>cust.
     seq (reading (\<lambda>t. Inr (get_value t Sales_Order
            (\<lambda>d. docstatus d < 2 \<and> field_is (shopify_order_id d) (o_id shopify_order))))) (\<lambda>so.
     seq (case so of
            None \<Rightarrow>
              seq (reading (\<lambda>t. get_order_items fw t (line_items shopify_order) shopify_settings)) (\<lambda>its.
              seq (reading (\<lambda>t. get_order_taxes t shopify_order shopify_settings)) (\<lambda>txs.
              seq (reading (\<lambda>t. get_discounted_amount shopify_order)) (\<lambda>disc.
              seq (return ((new_document Sales_Order)
                     \<lparr>naming_series := or_str (sales_order_series shopify_settings) ''SO-Shopify-'',
                      shopify_order_id := o_id shopify_order,
                      customer := or_opt cust (default_customer shopify_settings),
                      company := s_company shopify_settings,
                      selling_price_list := price_list shopify_settings,
                      posting_date := Some (nowdate fw),
                      items := its,
                      taxes := txs,
                      discount_amount := disc\<rparr>)) (\<lambda>doc.
              seq (return (if truthy_str company_arg
                           then doc\<lparr>company := company_arg, status := Some ''Draft''\<rparr> else doc)) (\<lambda>doc.
              seq (insert_doc fw doc) (\<lambda>doc.
                submit fw doc))))))
          | Some n \<Rightarrow> reading (get_doc Sales_Order n)) (\<lambda>so.
     seq commit (\<lambda>_.
       return so))))"

definition set_cost_center :: "item_row list \<Rightarrow> string option \<Rightarrow> item_row list" where
  "set_cost_center rows cc = map (\<lambda>item. item\<lparr>ir_cost_center := cc\<rparr>) rows"

definition make_payment_entry_against_sales_invoice ::
  "framework \<Rightarrow> document \<Rightarrow> shopify_settings \<Rightarrow> unit prog" where
  "make_payment_entry_against_sales_invoice fw doc shopify_settings =
     seq (get_payment_entry fw (doctype doc) (name doc) (cash_bank_account shopify_settings)) (\<lambda>payment_entry.
     seq (return (payment_entry\<lparr>reference_no := Some (name doc),
                                 reference_date := Some (nowdate fw)\<rparr>)) (\<lambda>payment_entry.
     seq (insert_doc fw payment_entry) (\<lambda>payment_entry.
     seq (submit fw payment_entry) (\<lambda>_.
       return ()))))"

text \<open>\<^verbatim>\<open>getdate\<close>: the date of a timestamp, today for none.\<close>

definition getdate :: "framework \<Rightarrow> string option \<Rightarrow> string option" where
  "getdate fw d = (if truthy_str d then d else Some (nowdate fw))"

definition create_sales_invoice ::
  "framework \<Rightarrow> order \<Rightarrow> shopify_settings \<Rightarrow> document \<Rightarrow> docname option prog" where
  "create_sales_invoice fw shopify_order shopify_settings so =
     seq (reading (\<lambda>t. Inr (get_value t Sales_Invoice
            (\<lambda>d. field_is (shopify_order_id d) (o_id shopify_order))))) (\<lambda>existing.
       if existing = None \<and> docstatus so = 1 \<and> per_billed so = 0
          \<and> sync_sales_invoice shopify_settings \<noteq> 0
       then
         seq (make_sales_invoice fw (name so)) (\<lambda>si.
         seq (return (si\<lparr>shopify_order_id := o_id shopify_order,
                         shopify_order_number := o_name shopify_order,
                         set_posting_time := 1,
                         posting_date := getdate fw (created_at shopify_order),
                         naming_series := or_str (sales_invoice_series shopify_settings) ''SI-Shopify-'',
                         items := set_cost_center (items si) (cost_center shopify_settings)\<rparr>)) (\<lambda>si.
         seq (insert_doc fw si) (\<lambda>si.
         seq (submit fw si) (\<lambda>si.
         seq (make_payment_entry_against_sales_invoice fw si shopify_settings) (\<lambda>_.
         seq commit (\<lambda>_.
           return (Some (name si))))))))
       else return None)"

text \<open>
  The list comprehension updates the rows of the delivery note in place: a row that several
  fulfilled lines resolve to ends with the quantity of the last of them, at each place where
  it occurs in the result.
\<close>

definition get_fulfillment_items ::
  "tables \<Rightarrow> item_row list \<Rightarrow> line_item list option \<Rightarrow> exn + item_row list" where
  "get_fulfillment_items t dn_items fulfillment_items =
     and_then (iter fulfillment_items) (\<lambda>fis.
       Inr (concat (map (\<lambda>item.
         map (\<lambda>dn_item. dn_item\<lparr>allow_zero_valuation_rate := 1,
                qty := quantity (last (filter (\<lambda>i. get_item_code t i = item_code dn_item) fis))\<rparr>)
           (filter (\<lambda>dn_item. get_item_code t item = item_code dn_item) dn_items)) fis)))"

fun delivery_note_loop ::
  "framework \<Rightarrow> order \<Rightarrow> shopify_settings \<Rightarrow> document \<Rightarrow> docname list \<Rightarrow> fulfillment list
     \<Rightarrow> docname list prog" where
  "delivery_note_loop fw shopify_order shopify_settings so delivery_notes [] = return delivery_notes"
| "delivery_note_loop fw shopify_order shopify_settings so delivery_notes (fulfillment # rest) =
     seq (reading (\<lambda>t. Inr (get_value t Delivery_Note
            (\<lambda>d. field_is (shopify_fulfillment_id d) (f_id fulfillment))))) (\<lambda>existing.
     seq (if existing = None \<and> docstatus so = 1
          then
            seq (make_delivery_note fw (name so)) (\<lambda>dn.
            seq (reading (\<lambda>t. get_fulfillment_items t (items dn) (f_line_items fulfillment))) (\<lambda>its.
            seq (return (dn\<lparr>shopify_order_id := order_id fulfillment,
                            shopify_order_number := o_name shopify_order,
                            set_posting_time := 1,
                            posting_date := getdate fw (f_created_at fulfillment),
                            shopify_fulfillment_id := f_id fulfillment,
                            naming_series := or_str (delivery_note_series shopify_settings) ''DN-Shopify-'',
                            items := its\<rparr>)) (\<lambda>dn.
            seq (insert_doc fw dn) (\<lambda>dn.
            seq (submit fw dn) (\<lambda>dn.
            seq commit (\<lambda>_.
              return (delivery_notes @ [name dn])))))))
          else return delivery_notes) (\<lambda>delivery_notes'.
       delivery_note_loop fw shopify_order shopify_settings so delivery_notes' rest))"

definition create_delivery_note ::
  "framework \<Rightarrow> order \<Rightarrow> shopify_settings \<Rightarrow> document \<Rightarrow> docname list option prog" where
  "create_delivery_note fw shopify_order shopify_settings so =
     (if sync_delivery_note shopify_settings = 0 then return None
      else
        seq (reading (\<lambda>t. iter (fulfillments shopify_order))) (\<lambda>fs.
        seq (delivery_note_loop fw shopify_order shopify_settings so [] fs) (\<lambda>delivery_notes.
          return (Some delivery_notes))))"

text \<open>The body of the \<^verbatim>\<open>try\<close> block of \<^verbatim>\<open>create_shopify_order\<close>.\<close>

definition order_try_body :: "framework \<Rightarrow> order \<Rightarrow> shopify_settings \<Rightarrow> document prog" where
  "order_try_body fw order shopify_settings =
     seq (validate_customer fw order shopify_settings) (\<lambda>_.
     seq (validate_item fw order shopify_settings) (\<lambda>_.
       create_sales_order fw order shopify_settings None))"

definition create_shopify_order :: "framework \<Rightarrow> order \<Rightarrow> string option \<Rightarrow> document option prog" where
  "create_shopify_order fw order rid =
     seq get_single (\<lambda>shopify_settings.
     seq (set_request_id rid) (\<lambda>_.
     seq (reading (\<lambda>t. subscript ''id'' (o_id order))) (\<lambda>oid.
     seq (reading (\<lambda>t. Inr (get_value t Sales_Order
            (\<lambda>d. docstatus d < 2 \<and> field_is (shopify_order_id d) (Some oid))))) (\<lambda>existing_so.
       (case existing_so of
          Some n \<Rightarrow> seq (reading (get_doc Sales_Order n)) (\<lambda>so. return (Some so))
        | None \<Rightarrow>
            try_except_else
              (order_try_body fw order shopify_settings)
              (\<lambda>e. seq (make_shopify_log Error order (Some e) False) (\<lambda>_. return None))
              (\<lambda>so. seq (make_shopify_log Success order None False) (\<lambda>_. return (Some so))))))))"

text \<open>The body of the \<^verbatim>\<open>try\<close> block of \<^verbatim>\<open>create_shopify_invoice\<close>.\<close>

definition invoice_try_body ::
  "framework \<Rightarrow> order \<Rightarrow> shopify_settings \<Rightarrow> document \<Rightarrow> docname option prog" where
  "invoice_try_body fw order shopify_settings so =
     seq (create_sales_invoice fw order shopify_settings so) (\<lambda>si.
     seq (case si of
            Some n \<Rightarrow>
              if financial_status order = Some ''refunded''
              then seq (make_sales_return fw n) (\<lambda>return_invoice.
                   seq (insert_doc fw return_invoice) (\<lambda>return_invoice.
                   seq (submit fw return_invoice) (\<lambda>_.
                     return ())))
              else return ()
          | None \<Rightarrow> return ()) (\<lambda>_.
       return si))"

definition create_shopify_invoice ::
  "framework \<Rightarrow> order \<Rightarrow> document \<Rightarrow> string option \<Rightarrow> docname option prog" where
  "create_shopify_invoice fw order so rid =
     seq get_single (\<lambda>shopify_settings.
     seq (set_request_id rid) (\<lambda>_.
       if \<not> (financial_status order \<in> {Some ''paid'', Some ''refunded''}) then return None
       else
         try_except_else
           (invoice_try_body fw order shopify_settings so)
           (\<lambda>e. seq (make_shopify_log Error order (Some e) False) (\<lambda>_. return None))
           return))"

definition create_shopify_delivery ::
  "framework \<Rightarrow> order \<Rightarrow> document \<Rightarrow> string option \<Rightarrow> docname list option prog" where
  "create_shopify_delivery fw order so rid =
     seq get_single (\<lambda>shopify_settings.
     seq (set_request_id rid) (\<lambda>_.
       if \<not> truthy_list (fulfillments order) then return None
       else
         try_except_else
           (create_delivery_note fw order shopify_settings so)
           (\<lambda>e. seq (make_shopify_log Error order (Some e) False) (\<lambda>_. return None))
           return))"

definition sync_sales_order :: "framework \<Rightarrow> order \<Rightarrow> string option \<Rightarrow> unit prog" where
  "sync_sales_order fw order rid =
     seq (set_user ''Administrator'') (\<lambda>_.
     seq (set_request_id rid) (\<lambda>_.
     seq (create_shopify_order fw order rid) (\<lambda>so.
       (case so of
          Some so \<Rightarrow>
            seq (create_shopify_invoice fw order so rid) (\<lambda>_.
            seq (create_shopify_delivery fw order so rid) (\<lambda>_.
              return ()))
        | None \<Rightarrow> return ()))))"

text \<open>The body of the loop of \<^verbatim>\<open>cancel_shopify_order\<close>, for one doctype.\<close>

definition cancel_doctype :: "framework \<Rightarrow> order \<Rightarrow> doctype \<Rightarrow> unit prog" where
  "cancel_doctype fw order dt =
     seq (reading (\<lambda>t. subscript ''id'' (o_id order))) (\<lambda>oid.
     seq (reading (\<lambda>t. Inr (get_value t dt
            (\<lambda>d. docstatus d = 1 \<and> field_is (shopify_order_id d) (Some oid))))) (\<lambda>found.
       (case found of
          Some n \<Rightarrow>
            try_except_else
              (seq (reading (get_doc dt n)) (cancel fw))
              (\<lambda>e. make_shopify_log Error order (Some e) True)
              return
        | None \<Rightarrow> return ())))"

fun cancel_loop :: "framework \<Rightarrow> order \<Rightarrow> doctype list \<Rightarrow> unit prog" where
  "cancel_loop fw order [] = return ()"
| "cancel_loop fw order (dt # rest) =
     seq (cancel_doctype fw order dt) (\<lambda>_. cancel_loop fw order rest)"

definition cancel_shopify_order :: "framework \<Rightarrow> order \<Rightarrow> string option \<Rightarrow> unit prog" where
  "cancel_shopify_order fw order rid =
     seq (set_user ''Administrator'') (\<lambda>_.
     seq (set_request_id rid) (\<lambda>_.
       cancel_loop fw order [Delivery_Note, Sales_Invoice, Sales_Order]))"


section \<open>A configured site, for concrete runs\<close>

definition example_settings :: shopify_settings where
  "example_settings =
     \<lparr>warehouse = Some ''Stores - C'', sales_order_series = None, sales_invoice_series = None,
      delivery_note_series = None, default_customer = Some ''Walk-in'', s_company = Some ''C'',
      price_list = Some ''Standard Selling'', cost_center = Some ''Main - C'',
      cash_bank_account = Some ''Cash - C'', sync_sales_invoice = 1, sync_delivery_note = 1\<rparr>"

definition example_tables :: tables where
  "example_tables =
     \<lparr>tabCustomer = [],
      tabItem = [\<lparr>i_item_code = ''MUG'', i_item_name = ''Mug'',
                  shopify_product_id = Some 7, shopify_variant_id = Some 70\<rparr>],
      tabShopify_Tax_Account =
        [\<lparr>parent = ''Shopify Settings'', shopify_tax = ''Standard'', tax_account = ''Freight - C''\<rparr>,
         \<lparr>parent = ''Shopify Settings'', shopify_tax = ''VAT'', tax_account = ''VAT - C''\<rparr>,
         \<lparr>parent = ''Shopify Settings'', shopify_tax = ''Duty'', tax_account = ''Duty - C''\<rparr>],
      settings = example_settings,
      documents = [],
      tabShopify_Log = [],
      series = 1\<rparr>"

definition example_state :: state where
  "example_state =
     \<lparr>db = example_tables, committed = example_tables, request_id = None,
      session_user = ''Guest''\<rparr>"

text \<open>A framework in which no call raises and no master record is created.\<close>

definition example_fw :: framework where
  "example_fw =
     \<lparr>fails = (\<lambda>_ _. None), nowdate = ''2020-01-01'',
      customer_docs = (\<lambda>_ _. []), item_docs = (\<lambda>_ _. [])\<rparr>"

text \<open>A shipping charge that carries two nested tax lines.\<close>

definition example_shipping_charge :: tax_line where
  "example_shipping_charge =
     Tax_Line (Some ''Standard'') (Some 10) None
       (Some [Tax_Line (Some ''VAT'') (Some 2) None None,
              Tax_Line (Some ''Duty'') (Some 1) None None])"

text \<open>An order for two mugs, paid, not yet fulfilled, with one tax line and one shipping charge.\<close>

definition example_line_item :: line_item where
  "example_line_item =
     \<lparr>li_id = Some 1, product_id = Some 7, variant_id = Some 70, li_title = Some ''Mug'',
      li_name = Some ''Mug'', li_price = Some 20, quantity = Some 2, uom = None\<rparr>"

definition example_order :: order where
  "example_order =
     \<lparr>o_id = Some 1001, o_name = Some ''#1001'', o_customer = None,
      line_items = Some [example_line_item], financial_status = Some ''paid'',
      fulfillments = Some [],
      discount_codes = Some [\<lparr>amount = Some 5\<rparr>, \<lparr>amount = Some (5 / 2)\<rparr>],
      o_tax_lines = Some [Tax_Line (Some ''VAT'') (Some 4) (Some (1 / 5)) None],
      taxes_included = Some False,
      shipping_lines = Some [Tax_Line (Some ''Standard'') (Some 10) None (Some [])],
      created_at = Some ''2020-01-01''\<rparr>"

text \<open>The same site after order 1001 has been stored and submitted.\<close>

definition example_sales_order :: document where
  "example_sales_order =
     (new_document Sales_Order)\<lparr>name := (''SO-Shopify-'', 1), docstatus := 1,
        naming_series := ''SO-Shopify-'', shopify_order_id := Some 1001\<rparr>"

definition state_with_order :: state where
  "state_with_order =
     example_state\<lparr>db := example_tables\<lparr>documents := [example_sales_order], series := 2\<rparr>,
                    committed := example_tables\<lparr>documents := [example_sales_order], series := 2\<rparr>\<rparr>"

text \<open>The order with a tax line whose title has no tax account, and with a line no item matches.\<close>

definition gst_line :: tax_line where
  "gst_line = Tax_Line (Some ''GST'') None (Some (1 / 10)) None"

definition unmapped_tax_order :: order where
  "unmapped_tax_order = example_order\<lparr>o_tax_lines := Some [gst_line]\<rparr>"

definition unknown_line_item :: line_item where
  "unknown_line_item =
     \<lparr>li_id = None, product_id = None, variant_id = None, li_title = Some ''Teapot'',
      li_name = Some ''Teapot'', li_price = Some 30, quantity = Some 1, uom = None\<rparr>"

definition unresolved_order :: order where
  "unresolved_order = example_order\<lparr>line_items := Some [unknown_line_item]\<rparr>"

text \<open>The order once its mugs have been shipped, and the order refunded.\<close>

definition example_fulfillment :: fulfillment where
  "example_fulfillment =
     \<lparr>f_id = Some 501, order_id = Some 1001, f_created_at = Some ''2020-01-02'',
      f_line_items = Some [example_line_item]\<rparr>"

definition fulfilled_order :: order where
  "fulfilled_order = example_order\<lparr>fulfillments := Some [example_fulfillment]\<rparr>"

definition refunded_order :: order where
  "refunded_order = example_order\<lparr>financial_status := Some ''refunded''\<rparr>"

text \<open>A shipped order with the unmapped tax line: building the Sales Order fails.\<close>

definition failing_order :: order where
  "failing_order = fulfilled_order\<lparr>o_tax_lines := Some [gst_line]\<rparr>"

text \<open>
  The site with order 1001 ordered, invoiced and delivered, all submitted and committed, and
  a framework that refuses to cancel Sales Invoices.
\<close>

definition example_sales_invoice :: document where
  "example_sales_invoice =
     (new_document Sales_Invoice)\<lparr>name := (''SI-Shopify-'', 2), docstatus := 1,
        naming_series := ''SI-Shopify-'', shopify_order_id := Some 1001\<rparr>"

definition example_delivery_note :: document where
  "example_delivery_note =
     (new_document Delivery_Note)\<lparr>name := (''DN-Shopify-'', 3), docstatus := 1,
        naming_series := ''DN-Shopify-'', shopify_order_id := Some 1001,
        shopify_fulfillment_id := Some 501\<rparr>"

definition delivered_tables :: tables where
  "delivered_tables =
     example_tables\<lparr>documents := [example_sales_order, example_sales_invoice, example_delivery_note],
                     series := 4\<rparr>"

definition delivered_state :: state where
  "delivered_state = example_state\<lparr>db := delivered_tables, committed := delivered_tables\<rparr>"

definition invoice_locked_fw :: framework where
  "invoice_locked_fw =
     example_fw\<lparr>fails := (\<lambda>op t. if op = Cancel Sales_Invoice
                                   then Some (FrameworkError ''Sales Invoice is reconciled'')
                                   else None)\<rparr>"

text \<open>The site with invoice sync switched off.\<close>

definition state_without_invoice_sync :: state where
  "state_without_invoice_sync =
     state_with_order\<lparr>db := (db state_with_order)\<lparr>settings := example_settings\<lparr>sync_sales_invoice := 0\<rparr>\<rparr>,
                       committed := (db state_with_order)\<lparr>settings := example_settings\<lparr>sync_sales_invoice := 0\<rparr>\<rparr>\<rparr>"

section \<open>Well-formed tables and the uniqueness of synced documents\<close>

text \<open>
  A document is identified by its doctype and name. In a well-formed database no two rows
  share both, and the naming series is ahead of every number it has given out.
\<close>

definition doc_key :: "document \<Rightarrow> doctype \<times> docname" where
  "doc_key d = (doctype d, name d)"

definition wf_names :: "tables \<Rightarrow> bool" where
  "wf_names t = (distinct (map doc_key (documents t))
                  \<and> (\<forall>d \<in> set (documents t). snd (name d) < series t))"

text \<open>
  The Sales Orders not cancelled that carry an external order id, the Sales Invoices that
  carry it, and the Delivery Notes that carry an external fulfillment id.
\<close>

definition orders_of :: "int \<Rightarrow> tables \<Rightarrow> document list" where
  "orders_of oid t =
     filter (\<lambda>d. doctype d = Sales_Order \<and> docstatus d < 2 \<and> shopify_order_id d = Some oid)
       (documents t)"

definition invoices_of :: "int \<Rightarrow> tables \<Rightarrow> document list" where
  "invoices_of oid t =
     filter (\<lambda>d. doctype d = Sales_Invoice \<and> shopify_order_id d = Some oid) (documents t)"

definition delivery_notes_of :: "int \<Rightarrow> tables \<Rightarrow> document list" where
  "delivery_notes_of fid t =
     filter (\<lambda>d. doctype d = Delivery_Note \<and> shopify_fulfillment_id d = Some fid) (documents t)"

definition unique_documents :: "tables \<Rightarrow> bool" where
  "unique_documents t =
     ((\<forall>oid. length (orders_of oid t) \<le> 1)
      \<and> (\<forall>oid. length (invoices_of oid t) \<le> 1)
      \<and> (\<forall>fid. length (delivery_notes_of fid t) \<le> 1))"

text \<open>The second state differs from the first at most by master records added.\<close>

definition masters_added :: "state \<Rightarrow> state \<Rightarrow> bool" where
  "masters_added s s' =
     (\<exists>cs its. s' = s\<lparr>db := (db s)\<lparr>tabCustomer := tabCustomer (db s) @ cs,
                                      tabItem := tabItem (db s) @ its\<rparr>\<rparr>)"


text \<open>The record that \<^verbatim>\<open>make_shopify_log\<close> writes for a failed stage.\<close>

definition error_log :: "order \<Rightarrow> exn \<Rightarrow> string option \<Rightarrow> shopify_log" where
  "error_log payload e rid =
     \<lparr>log_status = Error, response_data = payload, exception = Some e, log_request_id = rid\<rparr>"

text \<open>
  A consistent session: the tables of the running transaction are well formed and extend the
  committed documents. A step evolves a consistent session when it leaves it consistent, only
  appends documents, to the running transaction and to the committed tables, only appends
  log records, leaves the settings alone, and keeps the synced documents unique.
\<close>

definition consistent :: "state \<Rightarrow> bool" where
  "consistent s = (wf_names (db s) \<and> (\<exists>new. documents (db s) = documents (committed s) @ new))"

definition evolves :: "state \<Rightarrow> state \<Rightarrow> bool" where
  "evolves s s' =
     (consistent s \<longrightarrow>
        consistent s'
        \<and> (\<exists>new. documents (db s') = documents (db s) @ new)
        \<and> (\<exists>new. documents (committed s') = documents (committed s) @ new)
        \<and> (\<exists>new. tabShopify_Log (db s') = tabShopify_Log (db s) @ new)
        \<and> settings (db s') = settings (db s)
        \<and> (unique_documents (db s) \<longrightarrow> unique_documents (db s')))"

text \<open>
  Adding the document keeps the synced documents unique: no Sales Order that is not cancelled
  carries its order id, no Sales Invoice carries its order id, no Delivery Note carries its
  fulfillment id, as far as the document is of that type.
\<close>

definition may_add :: "document \<Rightarrow> tables \<Rightarrow> bool" where
  "may_add d t =
     ((doctype d = Sales_Order \<longrightarrow> (\<forall>oid. shopify_order_id d = Some oid \<longrightarrow> orders_of oid t = []))
      \<and> (doctype d = Sales_Invoice \<longrightarrow> (\<forall>oid. shopify_order_id d = Some oid \<longrightarrow> invoices_of oid t = []))
      \<and> (doctype d = Delivery_Note \<longrightarrow>
            (\<forall>fid. shopify_fulfillment_id d = Some fid \<longrightarrow> delivery_notes_of fid t = [])))"

text \<open>
  The document that \<^verbatim>\<open>create_sales_order\<close> builds for an order without a Sales Order:
  the items, then the taxes, then the discount, each of which may raise.
\<close>

definition sales_order_doc ::
  "framework \<Rightarrow> tables \<Rightarrow> order \<Rightarrow> shopify_settings \<Rightarrow> string option \<Rightarrow> exn + document" where
  "sales_order_doc fw t shopify_order shopify_settings company_arg =
     and_then (get_order_items fw t (line_items shopify_order) shopify_settings) (\<lambda>its.
     and_then (get_order_taxes t shopify_order shopify_settings) (\<lambda>txs.
     and_then (get_discounted_amount shopify_order) (\<lambda>disc.
       Inr (let doc = (new_document Sales_Order)
                     \<lparr>naming_series := or_str (sales_order_series shopify_settings) ''SO-Shopify-'',
                      shopify_order_id := o_id shopify_order,
                      customer := or_opt (customer_value t (\<lambda>c. field_is (shopify_customer_id c)
                         (case o_customer shopify_order of None \<Rightarrow> None | Some c \<Rightarrow> c_id c)))
                         (default_customer shopify_settings),
                      company := s_company shopify_settings,
                      selling_price_list := price_list shopify_settings,
                      posting_date := Some (nowdate fw),
                      items := its,
                      taxes := txs,
                      discount_amount := disc\<rparr>
            in if truthy_str company_arg
               then doc\<lparr>company := company_arg, status := Some ''Draft''\<rparr> else doc))))"

text \<open>The session after a stage has caught an exception: the Error record is written and committed.\<close>

definition with_error_log :: "order \<Rightarrow> exn \<Rightarrow> state \<Rightarrow> state" where
  "with_error_log payload e s =
     s\<lparr>db := (db s)\<lparr>tabShopify_Log := tabShopify_Log (db s) @ [error_log payload e (request_id s)]\<rparr>,
       committed := (db s)\<lparr>tabShopify_Log := tabShopify_Log (db s) @ [error_log payload e (request_id s)]\<rparr>\<rparr>"

text \<open>The record that \<^verbatim>\<open>make_shopify_log\<close> writes when the order stage has created the order.\<close>

definition success_log :: "order \<Rightarrow> string option \<Rightarrow> shopify_log" where
  "success_log payload rid =
     \<lparr>log_status = Success, response_data = payload, exception = None, log_request_id = rid\<rparr>"

section \<open>Running the statements\<close>

lemma seqE:
  assumes "seq m f s = (r, s')"
  obtains (raised) e where "m s = (Inl e, s')" "r = Inl e"
        | (continued) x s1 where "m s = (Inr x, s1)" "f x s1 = (r, s')"
  using assms by (auto simp: seq_def split: prod.splits sum.splits)

lemma try_except_elseE:
  assumes "try_except_else body handler orelse s = (r, s')"
  obtains (caught) e s1 where "body s = (Inl e, s1)" "handler e s1 = (r, s')"
        | (passed) x s1 where "body s = (Inr x, s1)" "orelse x s1 = (r, s')"
  using assms by (auto simp: try_except_else_def split: prod.splits sum.splits)

lemma wf_names_add_document:
  assumes "wf_names t" "snd (name d) = series t"
  shows "wf_names (add_document d t)"
  using assms by (auto simp: wf_names_def add_document_def doc_key_def less_Suc_eq)

lemma doc_key_docstatus: "doc_key (d\<lparr>docstatus := v\<rparr>) = doc_key d"
  by (simp add: doc_key_def)

lemma doc_key_set_docstatus:
  "doc_key \<circ> (\<lambda>d. if doctype d = dt \<and> name d = n then d\<lparr>docstatus := v\<rparr> else d) = doc_key"
  by (rule ext) (simp add: doc_key_def)

lemma wf_names_set_docstatus:
  assumes "wf_names t"
  shows "wf_names (set_docstatus dt n v t)"
  using assms by (auto simp: wf_names_def set_docstatus_def doc_key_set_docstatus)

lemma set_docstatus_add_document:
  assumes "wf_names t" "snd (name d) = series t" "doctype d = dt"
  shows "set_docstatus dt (name d) v (add_document d t) = add_document (d\<lparr>docstatus := v\<rparr>) t"
proof -
  have "map (\<lambda>x. if doctype x = dt \<and> name x = name d then x\<lparr>docstatus := v\<rparr> else x) (documents t)
        = documents t"
    using assms by (intro map_idI) (auto simp: wf_names_def)
  then show ?thesis using assms by (simp add: set_docstatus_def add_document_def)
qed

lemma masters_added_refl: "masters_added s s"
  by (auto simp: masters_added_def intro!: exI[of _ "[]"])

lemma masters_added_trans:
  assumes "masters_added s s1" "masters_added s1 s2"
  shows "masters_added s s2"
proof -
  obtain cs its where 1: "s1 = s\<lparr>db := (db s)\<lparr>tabCustomer := tabCustomer (db s) @ cs,
                                      tabItem := tabItem (db s) @ its\<rparr>\<rparr>"
    using assms(1) by (auto simp: masters_added_def)
  obtain cs' its' where 2: "s2 = s1\<lparr>db := (db s1)\<lparr>tabCustomer := tabCustomer (db s1) @ cs',
                                      tabItem := tabItem (db s1) @ its'\<rparr>\<rparr>"
    using assms(2) by (auto simp: masters_added_def)
  have "s2 = s\<lparr>db := (db s)\<lparr>tabCustomer := tabCustomer (db s) @ (cs @ cs'),
                                      tabItem := tabItem (db s) @ (its @ its')\<rparr>\<rparr>"
    using 1 2 by simp
  then show ?thesis unfolding masters_added_def by blast
qed


lemma masters_added_customers:
  "masters_added s (s\<lparr>db := (db s)\<lparr>tabCustomer := tabCustomer (db s) @ cs\<rparr>\<rparr>)"
  unfolding masters_added_def by (rule exI[of _ cs], rule exI[of _ "[]"]) simp

lemma masters_added_items:
  "masters_added s (s\<lparr>db := (db s)\<lparr>tabItem := tabItem (db s) @ its\<rparr>\<rparr>)"
  unfolding masters_added_def by (rule exI[of _ "[]"], rule exI[of _ its]) simp

lemma create_customer_masters:
  "create_customer fw payload st s = (r, s') \<Longrightarrow> masters_added s s'"
  by (auto simp: create_customer_def seq_def framework_call_def raise_def modify_db_def
      masters_added_refl masters_added_customers split: option.splits)

lemma make_item_masters:
  "make_item fw wh item s = (r, s') \<Longrightarrow> masters_added s s'"
  by (auto simp: make_item_def seq_def framework_call_def modify_db_def
      masters_added_refl masters_added_items split: option.splits)

lemma validate_customer_masters:
  "validate_customer fw order st s = (r, s') \<Longrightarrow> masters_added s s'"
  by (auto simp: validate_customer_def Let_def seq_def reading_def return_def masters_added_refl
      dest: create_customer_masters split: if_splits)

lemma validate_item_loop_masters:
  "validate_item_loop fw st lis s = (r, s') \<Longrightarrow> masters_added s s'"
proof (induction lis arbitrary: s)
  case Nil
  then show ?case by (simp add: return_def masters_added_refl)
next
  case (Cons item rest)
  from Cons.prems[unfolded validate_item_loop.simps] show ?case
  proof (cases rule: seqE)
    case (raised e)
    then show ?thesis
      by (auto simp: Let_def seq_def reading_def return_def masters_added_refl
          dest: make_item_masters split: if_splits)
  next
    case (continued x s1)
    from continued(1) have "masters_added s s1"
      by (auto simp: Let_def seq_def reading_def return_def masters_added_refl
          dest: make_item_masters split: if_splits)
    moreover have "masters_added s1 s'" using Cons.IH continued(2) by simp
    ultimately show ?thesis by (rule masters_added_trans)
  qed
qed

lemma validate_item_masters:
  "validate_item fw order st s = (r, s') \<Longrightarrow> masters_added s s'"
  by (auto simp: validate_item_def seq_def reading_def iter_def masters_added_refl
      dest: validate_item_loop_masters split: option.splits)

lemma insert_doc_run:
  "insert_doc fw doc s =
     (case fails fw (Insert (doctype doc)) (db s) of
        Some e \<Rightarrow> (Inl e, s)
      | None \<Rightarrow>
          if doctype doc = Sales_Order \<and> (\<exists>row \<in> set (items doc). \<not> truthy_str (item_code row))
          then (Inl (ValidationError ''Item not found''), s)
          else (Inr (doc\<lparr>name := (naming_series doc, series (db s))\<rparr>),
                s\<lparr>db := add_document (doc\<lparr>name := (naming_series doc, series (db s))\<rparr>) (db s)\<rparr>))"
  by (simp add: insert_doc_def seq_def framework_call_def validate_document_def raise_def
      return_def store_new_def Let_def split: option.splits)

lemma submit_run:
  "submit fw doc s =
     (case fails fw (Submit (doctype doc)) (db s) of
        Some e \<Rightarrow> (Inl e, s)
      | None \<Rightarrow> (Inr (doc\<lparr>docstatus := 1\<rparr>),
                 s\<lparr>db := set_docstatus (doctype doc) (name doc) 1 (db s)\<rparr>))"
  by (simp add: submit_def seq_def framework_call_def modify_db_def return_def split: option.splits)

lemma create_sales_order_raises_unchanged:
  assumes "get_value (db s) Sales_Order
             (\<lambda>d. docstatus d < 2 \<and> field_is (shopify_order_id d) (o_id order)) = None"
    and "(\<exists>e. get_order_taxes (db s) order st = Inl e)
         \<or> (\<exists>lis. line_items order = Some lis \<and> (\<exists>li \<in> set lis. \<not> truthy_str (get_item_code (db s) li)))"
  shows "\<exists>e. create_sales_order fw order st None s = (Inl e, s)"
  using assms
  by (auto simp: create_sales_order_def seq_def reading_def return_def insert_doc_run submit_run
      get_order_items_def iter_def and_then_def new_document_def truthy_str_def
      split: option.splits sum.splits)


lemma make_shopify_log_run:
  "make_shopify_log st payload e False s =
     (Inr (), s\<lparr>db := (db s)\<lparr>tabShopify_Log := tabShopify_Log (db s) @
                     [\<lparr>log_status = st, response_data = payload, exception = e,
                       log_request_id = request_id s\<rparr>]\<rparr>,
                 committed := (db s)\<lparr>tabShopify_Log := tabShopify_Log (db s) @
                     [\<lparr>log_status = st, response_data = payload, exception = e,
                       log_request_id = request_id s\<rparr>]\<rparr>\<rparr>)"
  by (simp add: make_shopify_log_def seq_def return_def modify_db_def commit_def)

lemma get_value_None_iff:
  "get_value t dt P = None \<longleftrightarrow> (\<forall>d \<in> set (documents t). \<not> (doctype d = dt \<and> P d))"
  by (auto simp: get_value_def find_None_iff)

lemma masters_added_documents:
  "masters_added s s' \<Longrightarrow> documents (db s') = documents (db s) \<and> series (db s') = series (db s)
     \<and> tabShopify_Tax_Account (db s') = tabShopify_Tax_Account (db s)
     \<and> tabShopify_Log (db s') = tabShopify_Log (db s) \<and> settings (db s') = settings (db s)
     \<and> committed s' = committed s \<and> request_id s' = request_id s"
  by (auto simp: masters_added_def)

lemma foldl_plus_sum_list:
  "foldl (\<lambda>acc x. acc + f x) (a::rat) xs = a + sum_list (map f xs)"
  by (induction xs arbitrary: a) (simp_all add: add.assoc)

lemma create_sales_order_created:
  assumes "create_sales_order fw order st None s = (Inr so, s')"
    and "get_value (db s) Sales_Order
           (\<lambda>d. docstatus d < 2 \<and> field_is (shopify_order_id d) (o_id order)) = None"
  shows "\<exists>codes. discount_codes order = Some codes
           \<and> discount_amount so = sum_list (map (\<lambda>c. flt (amount c)) codes)
           \<and> doctype so = Sales_Order \<and> docstatus so = 1 \<and> per_billed so = 0
           \<and> shopify_order_id so = o_id order \<and> snd (name so) = series (db s)
           \<and> db s' = set_docstatus Sales_Order (name so) 1 (add_document (so\<lparr>docstatus := 0\<rparr>) (db s))
           \<and> committed s' = db s' \<and> request_id s' = request_id s"
  using assms
  by (auto simp: create_sales_order_def seq_def reading_def return_def insert_doc_run submit_run
      get_discounted_amount_def iter_def and_then_def new_document_def commit_def
      foldl_plus_sum_list
      split: option.splits sum.splits if_splits)



lemma documents_set_docstatus_add:
  "documents (set_docstatus dt n v (add_document d t))
     = map (\<lambda>x. if doctype x = dt \<and> name x = n then x\<lparr>docstatus := v\<rparr> else x) (documents t @ [d])"
  by (simp add: set_docstatus_def add_document_def)

lemma order_body_cases:
  assumes "order_try_body fw order st s0 = (r, s1)"
  shows "(\<exists>e. r = Inl e \<and> masters_added s0 s1)
       \<or> (\<exists>s2. masters_added s0 s2
              \<and> seq (validate_customer fw order st) (\<lambda>_. validate_item fw order st) s0 = (Inr (), s2)
              \<and> create_sales_order fw order st None s2 = (r, s1))"
  using assms[unfolded order_try_body_def]
proof (cases rule: seqE)
  case (raised e)
  then show ?thesis by (auto dest: validate_customer_masters)
next
  case (continued x sa)
  note a = validate_customer_masters[OF continued(1)]
  from continued(2) show ?thesis
  proof (cases rule: seqE)
    case (raised e)
    then show ?thesis using a by (auto dest: validate_item_masters masters_added_trans)
  next
    case (continued y sb)
    have "masters_added s0 sb"
      using a validate_item_masters[OF continued(1)] by (rule masters_added_trans)
    moreover have "seq (validate_customer fw order st) (\<lambda>_. validate_item fw order st) s0 = (Inr (), sb)"
      using \<open>validate_customer fw order st s0 = (Inr x, sa)\<close> continued(1) by (simp add: seq_def)
    ultimately show ?thesis using continued(2) by blast
  qed
qed

lemma create_shopify_order_new_cases:
  assumes "create_shopify_order fw order rid s = (r, s')"
    and "o_id order = Some oid"
    and "\<forall>d \<in> set (documents (db s)).
           \<not> (doctype d = Sales_Order \<and> docstatus d < 2 \<and> shopify_order_id d = Some oid)"
  shows "(\<exists>e s1. r = Inr None
            \<and> order_try_body fw order (settings (db s)) (s\<lparr>request_id := rid\<rparr>) = (Inl e, s1)
            \<and> s' = snd (make_shopify_log Error order (Some e) False s1))
       \<or> (\<exists>so s1. r = Inr (Some so)
            \<and> order_try_body fw order (settings (db s)) (s\<lparr>request_id := rid\<rparr>) = (Inr so, s1)
            \<and> s' = snd (make_shopify_log Success order None False s1))"
proof -
  have none: "get_value (db s) Sales_Order
      (\<lambda>d. docstatus d < 2 \<and> field_is (shopify_order_id d) (Some oid)) = None"
    using assms(3) by (auto simp: get_value_None_iff field_is_def)
  show ?thesis
    using assms(1,2) none
    by (auto simp: create_shopify_order_def get_single_def set_request_id_def seq_def[of get_single]
        seq_def[of "set_request_id _"] seq_def[of "reading _"] seq_def[of "make_shopify_log _ _ _ _"]
        reading_def subscript_def return_def
        try_except_else_def make_shopify_log_run split: prod.splits sum.splits)
qed

section \<open>Tax accounts\<close>

lemma shipping_tax_lines_self: "shipping_tax_lines shipping_charge = Some [shipping_charge]"
  by (simp add: shipping_tax_lines_def or_list_def truthy_list_def)





lemma append_actual_charges_raises:
  assumes "tax \<in> set lines" "get_tax_account_head t tax = Inl e"
  shows "\<exists>e'. append_actual_charges t st rows lines = Inl e'"
  using assms
  by (induction lines arbitrary: rows) (auto simp: and_then_def split: sum.splits option.splits)



section \<open>The order stage\<close>

lemma validation_masters:
  assumes "seq (validate_customer fw order st) (\<lambda>_. validate_item fw order st) s0 = (r, s2)"
  shows "masters_added s0 s2"
  using assms
proof (cases rule: seqE)
  case (raised e)
  then show ?thesis by (auto dest: validate_customer_masters)
next
  case (continued x s1)
  then show ?thesis by (blast intro: masters_added_trans validate_customer_masters validate_item_masters)
qed

lemma order_stage_fails:
  assumes run: "create_shopify_order fw order rid s = (r, s')"
    and oid: "o_id order = Some oid"
    and fresh: "\<forall>d \<in> set (documents (db s)).
           \<not> (doctype d = Sales_Order \<and> docstatus d < 2 \<and> shopify_order_id d = Some oid)"
    and fail: "\<And>s2. seq (validate_customer fw order (settings (db s)))
                      (\<lambda>_. validate_item fw order (settings (db s))) (s\<lparr>request_id := rid\<rparr>) = (Inr (), s2)
                \<Longrightarrow> \<exists>e. create_sales_order fw order (settings (db s)) None s2 = (Inl e, s2)"
  shows "r = Inr None \<and> documents (db s') = documents (db s)
         \<and> (\<exists>e. tabShopify_Log (db s') = tabShopify_Log (db s) @ [error_log order e rid])"
proof -
  let ?s0 = "s\<lparr>request_id := rid\<rparr>"
  let ?body = "order_try_body fw order (settings (db s))"
  obtain rb s1 where body: "?body ?s0 = (rb, s1)" by (cases "?body ?s0")
  from order_body_cases[OF body] have raised: "\<exists>e. rb = Inl e \<and> masters_added ?s0 s1"
  proof
    assume "\<exists>e. rb = Inl e \<and> masters_added ?s0 s1"
    then show ?thesis .
  next
    assume "\<exists>s2. masters_added ?s0 s2
              \<and> seq (validate_customer fw order (settings (db s)))
                   (\<lambda>_. validate_item fw order (settings (db s))) ?s0 = (Inr (), s2)
              \<and> create_sales_order fw order (settings (db s)) None s2 = (rb, s1)"
    then obtain s2 where s2: "masters_added ?s0 s2"
        "seq (validate_customer fw order (settings (db s)))
           (\<lambda>_. validate_item fw order (settings (db s))) ?s0 = (Inr (), s2)"
        "create_sales_order fw order (settings (db s)) None s2 = (rb, s1)" by blast
    from fail[OF s2(2)] s2(3) s2(1) show ?thesis by auto
  qed
  then obtain e where e: "rb = Inl e" "masters_added ?s0 s1" by blast
  from create_shopify_order_new_cases[OF run oid fresh] body e(1)
  have r: "r = Inr None" and s': "s' = snd (make_shopify_log Error order (Some e) False s1)"
    by auto
  from masters_added_documents[OF e(2)] s' have
    "documents (db s') = documents (db s)"
    "tabShopify_Log (db s') = tabShopify_Log (db s) @ [error_log order e rid]"
    by (simp_all add: make_shopify_log_run error_log_def)
  with r show ?thesis by blast
qed

lemma field_is_iff: "field_is col v \<longleftrightarrow> v \<noteq> None \<and> col = v"
  by (cases v) (auto simp: field_is_def)

lemma find_cong_pred: "(\<And>x. x \<in> set xs \<Longrightarrow> P x = Q x) \<Longrightarrow> find P xs = find Q xs"
  by (induction xs) auto

lemma docstatus_update_same: "docstatus d = v \<Longrightarrow> d\<lparr>docstatus := v\<rparr> = d"
  by (cases d) auto

section \<open>Concrete runs\<close>

lemmas run_defs =
  create_shopify_order_def order_try_body_def get_single_def set_request_id_def set_user_def seq_def reading_def
  subscript_def return_def raise_def try_except_else_def make_shopify_log_run
  validate_customer_def validate_item_def create_sales_order_def insert_doc_run submit_run
  get_order_items_def get_order_taxes_def get_discounted_amount_def iter_def and_then_def
  new_document_def commit_def get_value_def get_doc_def field_is_def truthy_int_def truthy_str_def
  truthy_list_def or_int_def or_str_def or_opt_def item_value_def customer_value_def
  get_item_code_def get_tax_account_head_def update_taxes_with_shipping_lines_def
  shipping_tax_lines_self flt_def add_document_def set_docstatus_def Let_def
  framework_call_def modify_db_def

lemmas example_defs =
  example_fw_def example_order_def example_state_def example_tables_def
  example_settings_def example_line_item_def


lemma example_state_consistent: "consistent example_state" "unique_documents (db example_state)"
  by (simp_all add: consistent_def wf_names_def unique_documents_def orders_of_def invoices_of_def
      delivery_notes_of_def example_state_def example_tables_def)


lemmas sync_defs =
  sync_sales_order_def create_shopify_invoice_def invoice_try_body_def create_sales_invoice_def
  make_sales_invoice_def mapped_doc_def make_payment_entry_against_sales_invoice_def
  get_payment_entry_def getdate_def set_cost_center_def create_shopify_delivery_def
  create_delivery_note_def make_delivery_note_def get_fulfillment_items_def make_sales_return_def



lemma failing_order_raises:
  "order_try_body example_fw failing_order (settings (db example_state))
     (example_state\<lparr>request_id := None\<rparr>)
   = (Inl (ValidationError ''Tax Account not specified for Shopify Tax GST''),
      example_state\<lparr>request_id := None\<rparr>)"
  "invoice_try_body example_fw failing_order (settings (db example_state)) example_sales_order
     (example_state\<lparr>request_id := None\<rparr>)
   = (Inl (DoesNotExistError ''SO-Shopify-''), example_state\<lparr>request_id := None\<rparr>)"
  "create_delivery_note example_fw failing_order (settings (db example_state)) example_sales_order
     (example_state\<lparr>request_id := None\<rparr>)
   = (Inl (DoesNotExistError ''SO-Shopify-''), example_state\<lparr>request_id := None\<rparr>)"
  by (simp_all add: run_defs sync_defs example_defs failing_order_def fulfilled_order_def
      example_fulfillment_def gst_line_def example_sales_order_def)

lemma example_cancel:
  "map docstatus (documents (db (snd (cancel_shopify_order invoice_locked_fw example_order None
      delivered_state)))) = [2, 1, 1]"
  "tabShopify_Log (db (snd (cancel_shopify_order invoice_locked_fw example_order None
      delivered_state)))
     = [error_log example_order (FrameworkError ''Sales Invoice is reconciled'') None]"
  "map docstatus (documents (db (snd (cancel_shopify_order example_fw example_order None
      delivered_state)))) = [2, 2, 2]"
  by (simp_all add: cancel_shopify_order_def cancel_doctype_def cancel_def make_shopify_log_def
      rollback_def error_log_def run_defs example_defs delivered_state_def delivered_tables_def
      invoice_locked_fw_def example_sales_order_def example_sales_invoice_def
      example_delivery_note_def)

lemma example_paid_run:
  "tabShopify_Log (db (snd (sync_sales_order example_fw example_order None example_state)))
     = [success_log example_order None]"
  "map doctype (documents (db (snd (sync_sales_order example_fw example_order None example_state))))
     = [Sales_Order, Sales_Invoice, Payment_Entry]"
  by (simp_all add: run_defs sync_defs example_defs success_log_def)

lemma example_unmapped_run:
  "documents (db (snd (sync_sales_order example_fw unmapped_tax_order None example_state))) = []"
  "map log_status (tabShopify_Log (db (snd (sync_sales_order example_fw unmapped_tax_order None
      example_state)))) = [Error]"
  by (simp_all add: run_defs sync_defs example_defs unmapped_tax_order_def gst_line_def)

section \<open>Storing documents\<close>

lemma get_doc_Inr:
  "get_doc dt n t = Inr d \<Longrightarrow> d \<in> set (documents t) \<and> doctype d = dt \<and> name d = n"
  by (auto simp: get_doc_def find_Some_iff split: option.splits)

lemma get_doc_added:
  "doctype d = dt \<Longrightarrow> name d = n \<Longrightarrow> \<exists>x. get_doc dt n (add_document d t) = Inr x"
  by (cases "find (\<lambda>x. doctype x = dt \<and> name x = n) (documents (add_document d t))")
     (auto simp: get_doc_def add_document_def find_None_iff)

lemma get_doc_unique:
  assumes "wf_names t" "d \<in> set (documents t)"
  shows "get_doc (doctype d) (name d) t = Inr d"
proof -
  obtain x where x: "find (\<lambda>x. doctype x = doctype d \<and> name x = name d) (documents t) = Some x"
    using assms(2) by (cases "find (\<lambda>x. doctype x = doctype d \<and> name x = name d) (documents t)")
      (auto simp: find_None_iff)
  then have "x \<in> set (documents t)" "doc_key x = doc_key d"
    by (auto simp: find_Some_iff doc_key_def)
  then have "x = d" using assms by (auto simp: wf_names_def dest: inj_on_eq_iff[OF iffD1[OF distinct_map, THEN conjunct2]])
  then show ?thesis using x by (simp add: get_doc_def)
qed

text \<open>Storing a document and submitting it at once.\<close>

lemma insert_submit_cases:
  assumes "seq (insert_doc fw doc) (\<lambda>d. seq (submit fw d) k) s = (r, s')"
    and "wf_names (db s)"
  obtains (unchanged) e where "r = Inl e" "s' = s"
  | (draft) e where "r = Inl e"
      "s' = s\<lparr>db := add_document (doc\<lparr>name := (naming_series doc, series (db s))\<rparr>) (db s)\<rparr>"
  | (submitted)
      "k (doc\<lparr>name := (naming_series doc, series (db s)), docstatus := 1\<rparr>)
         (s\<lparr>db := add_document (doc\<lparr>name := (naming_series doc, series (db s)), docstatus := 1\<rparr>) (db s)\<rparr>)
       = (r, s')"
proof -
  let ?d = "doc\<lparr>name := (naming_series doc, series (db s))\<rparr>"
  have norm: "set_docstatus (doctype doc) (naming_series doc, series (db s)) 1 (add_document ?d (db s))
        = add_document (?d\<lparr>docstatus := 1\<rparr>) (db s)"
    using set_docstatus_add_document[OF assms(2), of ?d "doctype doc" 1] by simp
  show ?thesis
    using assms(1) norm that
    by (auto simp: seq_def insert_doc_run submit_run split: option.splits if_splits)
qed

section \<open>Every step only appends documents and keeps them unique\<close>

lemma orders_of_add:
  "orders_of oid (add_document d t) = orders_of oid t @
     (if doctype d = Sales_Order \<and> docstatus d < 2 \<and> shopify_order_id d = Some oid then [d] else [])"
  by (simp add: orders_of_def add_document_def)

lemma invoices_of_add:
  "invoices_of oid (add_document d t) = invoices_of oid t @
     (if doctype d = Sales_Invoice \<and> shopify_order_id d = Some oid then [d] else [])"
  by (simp add: invoices_of_def add_document_def)

lemma delivery_notes_of_add:
  "delivery_notes_of fid (add_document d t) = delivery_notes_of fid t @
     (if doctype d = Delivery_Note \<and> shopify_fulfillment_id d = Some fid then [d] else [])"
  by (simp add: delivery_notes_of_def add_document_def)

lemma unique_documents_add:
  assumes "unique_documents t" "may_add d t"
  shows "unique_documents (add_document d t)"
  using assms
  by (auto simp: unique_documents_def may_add_def orders_of_add invoices_of_add delivery_notes_of_add)

lemma evolvesI: "(consistent s \<Longrightarrow> evolves s s') \<Longrightarrow> evolves s s'"
  by (auto simp: evolves_def)

lemma evolves_refl: "evolves s s"
  by (simp add: evolves_def)

lemma evolves_trans: "evolves s s1 \<Longrightarrow> evolves s1 s2 \<Longrightarrow> evolves s s2"
  by (auto simp: evolves_def)

lemma evolves_add:
  assumes "snd (name d) = series (db s)" "may_add d (db s)"
  shows "evolves s (s\<lparr>db := add_document d (db s)\<rparr>)"
  using assms
  by (auto simp: evolves_def consistent_def wf_names_add_document unique_documents_add)
     (auto simp: add_document_def)

lemma evolves_commit: "evolves s (s\<lparr>committed := db s\<rparr>)"
  by (auto simp: evolves_def consistent_def)

lemma evolves_masters: "masters_added s s' \<Longrightarrow> evolves s s'"
  by (auto simp: masters_added_def evolves_def consistent_def wf_names_def unique_documents_def
      orders_of_def invoices_of_def delivery_notes_of_def)

lemma evolves_log: "evolves s (snd (make_shopify_log st payload e False s))"
  by (auto simp: make_shopify_log_run evolves_def consistent_def wf_names_def unique_documents_def
      orders_of_def invoices_of_def delivery_notes_of_def)

lemma evolves_flags:
  "evolves s (s\<lparr>request_id := rid\<rparr>)" "evolves s (s\<lparr>session_user := u\<rparr>)"
  by (auto simp: evolves_def consistent_def)

lemma consistent_wf: "consistent s \<Longrightarrow> wf_names (db s)"
  by (simp add: consistent_def)

lemma evolves_consistent: "evolves s s' \<Longrightarrow> consistent s \<Longrightarrow> consistent s'"
  by (simp add: evolves_def)

lemma may_add_other:
  "doctype d = Payment_Entry \<Longrightarrow> may_add d t"
  "shopify_order_id d = None \<Longrightarrow> shopify_fulfillment_id d = None \<Longrightarrow> may_add d t"
  by (auto simp: may_add_def)

lemma mapped_doc_fields:
  "doctype (mapped_doc dt src) = dt" "docstatus (mapped_doc dt src) = 0"
  "shopify_order_id (mapped_doc dt src) = None" "shopify_fulfillment_id (mapped_doc dt src) = None"
  "is_return (mapped_doc dt src) = False" "per_billed (mapped_doc dt src) = 0"
  "made_from (mapped_doc dt src) = Some (name src)" "return_against (mapped_doc dt src) = None"
  by (simp_all add: mapped_doc_def new_document_def)

lemma get_payment_entry_state:
  assumes "get_payment_entry fw dt n account s = (r, s')"
  shows "s' = s \<and> (\<forall>pe. r = Inr pe \<longrightarrow> doctype pe = Payment_Entry \<and> docstatus pe = 0
            \<and> made_from pe = Some n)"
  using assms
  by (auto simp: get_payment_entry_def seq_def framework_call_def reading_def return_def
      new_document_def dest: get_doc_Inr split: option.splits sum.splits)

lemma make_payment_entry_evolves:
  assumes "make_payment_entry_against_sales_invoice fw doc st s = (r, s')"
  shows "evolves s s'"
proof (rule evolvesI)
  assume c: "consistent s"
  from assms[unfolded make_payment_entry_against_sales_invoice_def] show ?thesis
  proof (cases rule: seqE)
    case (raised e)
    then show ?thesis using get_payment_entry_state by (metis evolves_refl)
  next
    case (continued pe s1)
    from get_payment_entry_state[OF continued(1)] have s1: "s1 = s" and pe: "doctype pe = Payment_Entry"
      by auto
    from continued(2)[unfolded s1] have
      "seq (insert_doc fw (pe\<lparr>reference_no := Some (name doc), reference_date := Some (nowdate fw)\<rparr>))
         (\<lambda>d. seq (submit fw d) (\<lambda>_. return ())) s = (r, s')"
      by (simp add: seq_def return_def)
    from this consistent_wf[OF c] show ?thesis
    proof (cases rule: insert_submit_cases)
      case (unchanged e)
      then show ?thesis by (simp add: evolves_refl)
    next
      case (draft e)
      then show ?thesis using pe by (auto intro!: evolves_add may_add_other)
    next
      case submitted
      then show ?thesis using pe by (auto simp: return_def intro!: evolves_add may_add_other)
    qed
  qed
qed


lemma mapper_state:
  assumes "make_sales_invoice fw n s = (r, s') \<or> make_delivery_note fw n s = (r, s')
           \<or> make_sales_return fw n s = (r, s')"
  shows "s' = s"
  using assms
  by (auto simp: make_sales_invoice_def make_delivery_note_def make_sales_return_def seq_def
      framework_call_def reading_def return_def split: option.splits sum.splits)

lemma make_sales_invoice_Inr:
  assumes "make_sales_invoice fw n s = (Inr si, s')"
  shows "\<exists>src. get_doc Sales_Order n (db s) = Inr src \<and> si = mapped_doc Sales_Invoice src"
  using assms
  by (auto simp: make_sales_invoice_def seq_def framework_call_def reading_def return_def
      split: option.splits sum.splits)

lemma make_delivery_note_Inr:
  assumes "make_delivery_note fw n s = (Inr dn, s')"
  shows "\<exists>src. get_doc Sales_Order n (db s) = Inr src \<and> dn = mapped_doc Delivery_Note src"
  using assms
  by (auto simp: make_delivery_note_def seq_def framework_call_def reading_def return_def
      split: option.splits sum.splits)

lemma make_sales_return_Inr:
  assumes "make_sales_return fw n s = (Inr ret, s')"
  shows "\<exists>src. get_doc Sales_Invoice n (db s) = Inr src
           \<and> ret = (mapped_doc Sales_Invoice src)\<lparr>is_return := True, return_against := Some (name src)\<rparr>"
  using assms
  by (auto simp: make_sales_return_def seq_def framework_call_def reading_def return_def
      split: option.splits sum.splits)

lemma no_invoice_may_add:
  assumes "get_value t Sales_Invoice (\<lambda>d. field_is (shopify_order_id d) v) = None"
    and "doctype d = Sales_Invoice" "shopify_order_id d = v"
  shows "may_add d t"
  using assms
  by (auto simp: may_add_def get_value_None_iff field_is_def invoices_of_def filter_empty_conv)

lemma no_order_may_add:
  assumes "get_value t Sales_Order (\<lambda>d. docstatus d < 2 \<and> field_is (shopify_order_id d) v) = None"
    and "doctype d = Sales_Order" "shopify_order_id d = v"
  shows "may_add d t"
  using assms
  by (auto simp: may_add_def get_value_None_iff field_is_def orders_of_def filter_empty_conv)

lemma no_delivery_note_may_add:
  assumes "get_value t Delivery_Note (\<lambda>d. field_is (shopify_fulfillment_id d) v) = None"
    and "doctype d = Delivery_Note" "shopify_fulfillment_id d = v"
  shows "may_add d t"
  using assms
  by (auto simp: may_add_def get_value_None_iff field_is_def delivery_notes_of_def filter_empty_conv)

lemma create_sales_invoice_evolves:
  assumes "create_sales_invoice fw order st so s = (r, s')"
  shows "evolves s s'"
proof (rule evolvesI)
  assume c: "consistent s"
  let ?existing = "get_value (db s) Sales_Invoice (\<lambda>d. field_is (shopify_order_id d) (o_id order))"
  show ?thesis
  proof (cases "?existing = None \<and> docstatus so = 1 \<and> per_billed so = 0 \<and> sync_sales_invoice st \<noteq> 0")
    case False
    then have "s' = s" using assms
      by (auto simp: create_sales_invoice_def seq_def reading_def return_def)
    then show ?thesis by (simp add: evolves_refl)
  next
    case True
    then have run: "seq (make_sales_invoice fw (name so)) (\<lambda>si.
         seq (return (si\<lparr>shopify_order_id := o_id order,
                         shopify_order_number := o_name order,
                         set_posting_time := 1,
                         posting_date := getdate fw (created_at order),
                         naming_series := or_str (sales_invoice_series st) ''SI-Shopify-'',
                         items := set_cost_center (items si) (cost_center st)\<rparr>)) (\<lambda>si.
         seq (insert_doc fw si) (\<lambda>si.
         seq (submit fw si) (\<lambda>si.
         seq (make_payment_entry_against_sales_invoice fw si st) (\<lambda>_.
         seq commit (\<lambda>_.
           return (Some (name si)))))))) s = (r, s')"
      using assms by (simp add: create_sales_invoice_def seq_def[of "reading _"] reading_def)
    then show ?thesis
    proof (cases rule: seqE)
      case (raised e)
      then show ?thesis using mapper_state by (metis evolves_refl)
    next
      case (continued si0 s1)
      have s1: "s1 = s" using mapper_state continued(1) by blast
      from make_sales_invoice_Inr[OF continued(1)] have si0: "doctype si0 = Sales_Invoice"
        by (auto simp: mapped_doc_fields)
      let ?si = "si0\<lparr>shopify_order_id := o_id order,
                         shopify_order_number := o_name order,
                         set_posting_time := 1,
                         posting_date := getdate fw (created_at order),
                         naming_series := or_str (sales_invoice_series st) ''SI-Shopify-'',
                         items := set_cost_center (items si0) (cost_center st)\<rparr>"
      have ok: "\<And>n v. may_add (?si\<lparr>name := n, docstatus := v\<rparr>) (db s)" "\<And>n. may_add (?si\<lparr>name := n\<rparr>) (db s)"
        using True si0 by (auto intro!: no_invoice_may_add)
      from continued(2)[unfolded s1] have
        "seq (insert_doc fw ?si) (\<lambda>si.
         seq (submit fw si) (\<lambda>si.
         seq (make_payment_entry_against_sales_invoice fw si st) (\<lambda>_.
         seq commit (\<lambda>_.
           return (Some (name si)))))) s = (r, s')"
        by (simp add: seq_def[of "return _"] return_def)
      from this consistent_wf[OF c] show ?thesis
      proof (cases rule: insert_submit_cases)
        case (unchanged e)
        then show ?thesis by (simp add: evolves_refl)
      next
        case (draft e)
        then show ?thesis using ok by (auto intro!: evolves_add)
      next
        case submitted
        let ?si1 = "?si\<lparr>name := (naming_series ?si, series (db s)), docstatus := 1\<rparr>"
        let ?s1 = "s\<lparr>db := add_document ?si1 (db s)\<rparr>"
        have e1: "evolves s ?s1" using ok by (auto intro!: evolves_add)
        from submitted show ?thesis
        proof (cases rule: seqE)
          case (raised e)
          have "evolves ?s1 s'" using raised(1) by (rule make_payment_entry_evolves)
          with e1 show ?thesis by (rule evolves_trans)
        next
          case (continued u s2)
          have e2: "evolves ?s1 s2" using continued(1) by (rule make_payment_entry_evolves)
          have s': "s' = s2\<lparr>committed := db s2\<rparr>" using continued(2)
            by (auto simp: seq_def commit_def return_def)
          have "evolves s s2" using e1 e2 by (rule evolves_trans)
          moreover have "evolves s2 s'" unfolding s' by (rule evolves_commit)
          ultimately show ?thesis by (rule evolves_trans)
        qed
      qed
    qed
  qed
qed

lemma seq_reading_Inr: "seq (reading (\<lambda>t. Inr (g t))) f s = f (g (db s)) s"
  by (simp add: seq_def reading_def)

lemma seq_reading:
  "seq (reading g) f s = (case g (db s) of Inl e \<Rightarrow> (Inl e, s) | Inr x \<Rightarrow> f x s)"
  by (simp add: seq_def reading_def split: sum.splits)

lemma seq_return: "seq (return x) f s = f x s"
  by (simp add: seq_def return_def)

lemma seq_return_right: "seq m return = m"
  by (rule ext) (simp add: seq_def return_def split: prod.splits sum.splits)

lemma new_document_fields:
  "doctype (new_document dt) = dt" "docstatus (new_document dt) = 0"
  "per_billed (new_document dt) = 0" "shopify_order_id (new_document dt) = None"
  "shopify_fulfillment_id (new_document dt) = None" "is_return (new_document dt) = False"
  by (simp_all add: new_document_def)

lemma insert_submit_only_cases:
  assumes "seq (insert_doc fw doc) (submit fw) s = (r, s')"
    and "wf_names (db s)"
  obtains (unchanged) e where "r = Inl e" "s' = s"
  | (draft) e where "r = Inl e"
      "s' = s\<lparr>db := add_document (doc\<lparr>name := (naming_series doc, series (db s))\<rparr>) (db s)\<rparr>"
  | (submitted)
      "r = Inr (doc\<lparr>name := (naming_series doc, series (db s)), docstatus := 1\<rparr>)"
      "s' = s\<lparr>db := add_document (doc\<lparr>name := (naming_series doc, series (db s)), docstatus := 1\<rparr>) (db s)\<rparr>"
proof -
  have "seq (insert_doc fw doc) (\<lambda>d. seq (submit fw d) return) s = (r, s')"
    using assms(1) by (simp add: seq_return_right)
  from this assms(2) show ?thesis
    by (cases rule: insert_submit_cases) (auto simp: return_def intro: that)
qed

lemma create_sales_order_new:
  assumes "get_value (db s) Sales_Order
               (\<lambda>d. docstatus d < 2 \<and> field_is (shopify_order_id d) (o_id order)) = None"
  shows "create_sales_order fw order st company_arg s =
     (case sales_order_doc fw (db s) order st company_arg of
        Inl e \<Rightarrow> (Inl e, s)
      | Inr doc \<Rightarrow>
          (case seq (insert_doc fw doc) (submit fw) s of
             (Inl e, s1) \<Rightarrow> (Inl e, s1)
           | (Inr so, s1) \<Rightarrow> (Inr so, s1\<lparr>committed := db s1\<rparr>)))"
  using assms
  by (simp add: create_sales_order_def sales_order_doc_def seq_def reading_def return_def
      and_then_def commit_def Let_def split: sum.splits prod.splits)

lemma sales_order_doc_fields:
  assumes "sales_order_doc fw t order st company_arg = Inr doc"
  shows "doctype doc = Sales_Order" "shopify_order_id doc = o_id order" "docstatus doc = 0"
    "per_billed doc = 0" "\<exists>codes. discount_codes order = Some codes
       \<and> discount_amount doc = sum_list (map (\<lambda>c. flt (amount c)) codes)"
  using assms
  by (auto simp: sales_order_doc_def and_then_def Let_def new_document_fields
      get_discounted_amount_def iter_def foldl_plus_sum_list new_document_def
      split: sum.splits if_splits option.splits)

lemma create_sales_order_evolves:
  assumes "create_sales_order fw order st company_arg s = (r, s')"
  shows "evolves s s'"
proof (rule evolvesI)
  assume c: "consistent s"
  let ?so = "get_value (db s) Sales_Order
               (\<lambda>d. docstatus d < 2 \<and> field_is (shopify_order_id d) (o_id order))"
  have "\<exists>s1. evolves s s1 \<and> (s' = s1 \<or> s' = s1\<lparr>committed := db s1\<rparr>)"
  proof (cases ?so)
    case (Some n)
    then have "s' = s \<or> s' = s\<lparr>committed := db s\<rparr>" using assms
      by (auto simp: create_sales_order_def seq_reading_Inr seq_reading seq_def[of commit] commit_def
          return_def split: sum.splits)
    then show ?thesis using evolves_refl[of s] by blast
  next
    case None
    show ?thesis
    proof (cases "sales_order_doc fw (db s) order st company_arg")
      case (Inl e)
      then have "s' = s" using assms create_sales_order_new[OF None, of fw st company_arg] by simp
      then show ?thesis using evolves_refl[of s] by blast
    next
      case (Inr doc)
      obtain r1 s1 where run: "seq (insert_doc fw doc) (submit fw) s = (r1, s1)"
        by (cases "seq (insert_doc fw doc) (submit fw) s")
      have s': "s' = s1 \<or> s' = s1\<lparr>committed := db s1\<rparr>"
        using assms create_sales_order_new[OF None, of fw st company_arg] Inr run
        by (auto split: sum.splits)
      have ok: "\<And>n v. may_add (doc\<lparr>name := n, docstatus := v\<rparr>) (db s)" "\<And>n. may_add (doc\<lparr>name := n\<rparr>) (db s)"
        using None sales_order_doc_fields(1,2)[OF Inr] by (auto intro!: no_order_may_add)
      from run consistent_wf[OF c] have "evolves s s1"
      proof (cases rule: insert_submit_only_cases)
        case (unchanged e)
        then show ?thesis by (simp add: evolves_refl)
      next
        case (draft e)
        then show ?thesis using ok by (auto intro!: evolves_add)
      next
        case submitted
        then show ?thesis using ok by (auto intro!: evolves_add)
      qed
      then show ?thesis using s' by blast
    qed
  qed
  then obtain s1 where "evolves s s1" "s' = s1 \<or> s' = s1\<lparr>committed := db s1\<rparr>" by blast
  then show ?thesis using evolves_commit[of s1] evolves_trans[of s s1] by auto
qed

lemma evolves_then_commit: "evolves s s1 \<Longrightarrow> s' = s1\<lparr>committed := db s1\<rparr> \<Longrightarrow> evolves s s'"
  using evolves_commit[of s1] evolves_trans[of s s1 s'] by simp

lemma mapper_evolves:
  assumes "make_sales_invoice fw n s = (r, s') \<or> make_delivery_note fw n s = (r, s')
           \<or> make_sales_return fw n s = (r, s')"
  shows "evolves s s'"
  using mapper_state[OF assms] by (simp add: evolves_refl)

lemma invoice_try_body_evolves:
  assumes "invoice_try_body fw order st so s = (r, s')"
  shows "evolves s s'"
  using assms[unfolded invoice_try_body_def]
proof (cases rule: seqE)
  case (raised e)
  then show ?thesis by (simp add: create_sales_invoice_evolves)
next
  case (continued si s1)
  have e1: "evolves s s1" using continued(1) by (rule create_sales_invoice_evolves)
  have "evolves s1 s'"
  proof (rule evolvesI)
    assume c: "consistent s1"
    show ?thesis
    proof (cases "si \<noteq> None \<and> financial_status order = Some ''refunded''")
      case False
      then have "s' = s1" using continued(2)
        by (auto simp: seq_def return_def split: option.splits if_splits)
      then show ?thesis by (simp add: evolves_refl)
    next
      case True
      then obtain n where n: "si = Some n" by auto
      from continued(2) True n have
        "seq (make_sales_return fw n) (\<lambda>return_invoice.
           seq (insert_doc fw return_invoice) (\<lambda>return_invoice.
           seq (submit fw return_invoice) (\<lambda>_. return si))) s1 = (r, s')"
        by (auto simp: seq_def return_def split: prod.splits sum.splits)
      then show ?thesis
      proof (cases rule: seqE)
        case (raised e)
        then show ?thesis using mapper_evolves by blast
      next
        case (continued ret s2)
        have s2: "s2 = s1" using mapper_state continued(1) by blast
        from make_sales_return_Inr[OF continued(1)] have
          ok: "\<And>n v. may_add (ret\<lparr>name := n, docstatus := v\<rparr>) (db s1)" "\<And>n. may_add (ret\<lparr>name := n\<rparr>) (db s1)"
          by (auto simp: mapped_doc_fields intro!: may_add_other(2))
        from continued(2)[unfolded s2] consistent_wf[OF c] show ?thesis
        proof (cases rule: insert_submit_cases)
          case (unchanged e)
          then show ?thesis by (simp add: evolves_refl)
        next
          case (draft e)
          then show ?thesis using ok by (auto intro!: evolves_add)
        next
          case submitted
          then show ?thesis using ok by (auto simp: return_def intro!: evolves_add)
        qed
      qed
    qed
  qed
  with e1 show ?thesis by (rule evolves_trans)
qed

lemma delivery_note_loop_evolves:
  assumes "delivery_note_loop fw order st so acc fs s = (r, s')"
  shows "evolves s s'"
  using assms
proof (induction fs arbitrary: acc s)
  case Nil
  then show ?case by (simp add: return_def evolves_refl)
next
  case (Cons f rest)
  let ?existing = "get_value (db s) Delivery_Note (\<lambda>d. field_is (shopify_fulfillment_id d) (f_id f))"
  from Cons.prems have run:
    "seq (if ?existing = None \<and> docstatus so = 1
          then
            seq (make_delivery_note fw (name so)) (\<lambda>dn.
            seq (reading (\<lambda>t. get_fulfillment_items t (items dn) (f_line_items f))) (\<lambda>its.
            seq (return (dn\<lparr>shopify_order_id := order_id f,
                            shopify_order_number := o_name order,
                            set_posting_time := 1,
                            posting_date := getdate fw (f_created_at f),
                            shopify_fulfillment_id := f_id f,
                            naming_series := or_str (delivery_note_series st) ''DN-Shopify-'',
                            items := its\<rparr>)) (\<lambda>dn.
            seq (insert_doc fw dn) (\<lambda>dn.
            seq (submit fw dn) (\<lambda>dn.
            seq commit (\<lambda>_.
              return (acc @ [name dn])))))))
          else return acc) (\<lambda>acc'.
       delivery_note_loop fw order st so acc' rest) s = (r, s')"
    by (simp add: seq_reading_Inr)
  have step: "evolves s s1" if body: "(if ?existing = None \<and> docstatus so = 1
          then
            seq (make_delivery_note fw (name so)) (\<lambda>dn.
            seq (reading (\<lambda>t. get_fulfillment_items t (items dn) (f_line_items f))) (\<lambda>its.
            seq (return (dn\<lparr>shopify_order_id := order_id f,
                            shopify_order_number := o_name order,
                            set_posting_time := 1,
                            posting_date := getdate fw (f_created_at f),
                            shopify_fulfillment_id := f_id f,
                            naming_series := or_str (delivery_note_series st) ''DN-Shopify-'',
                            items := its\<rparr>)) (\<lambda>dn.
            seq (insert_doc fw dn) (\<lambda>dn.
            seq (submit fw dn) (\<lambda>dn.
            seq commit (\<lambda>_.
              return (acc @ [name dn])))))))
          else return acc) s = (r1, s1)" for r1 s1
  proof (rule evolvesI)
    assume c: "consistent s"
    show ?thesis
    proof (cases "?existing = None \<and> docstatus so = 1")
      case False
      then show ?thesis using body by (auto simp: return_def evolves_refl)
    next
      case True
      with body have "seq (make_delivery_note fw (name so)) (\<lambda>dn.
            seq (reading (\<lambda>t. get_fulfillment_items t (items dn) (f_line_items f))) (\<lambda>its.
            seq (return (dn\<lparr>shopify_order_id := order_id f,
                            shopify_order_number := o_name order,
                            set_posting_time := 1,
                            posting_date := getdate fw (f_created_at f),
                            shopify_fulfillment_id := f_id f,
                            naming_series := or_str (delivery_note_series st) ''DN-Shopify-'',
                            items := its\<rparr>)) (\<lambda>dn.
            seq (insert_doc fw dn) (\<lambda>dn.
            seq (submit fw dn) (\<lambda>dn.
            seq commit (\<lambda>_.
              return (acc @ [name dn]))))))) s = (r1, s1)" by simp
      then show ?thesis
      proof (cases rule: seqE)
        case (raised e)
        then show ?thesis using mapper_evolves by blast
      next
        case (continued dn0 s2)
        have s2: "s2 = s" using mapper_state continued(1) by blast
        from make_delivery_note_Inr[OF continued(1)] have dn0: "doctype dn0 = Delivery_Note"
          by (auto simp: mapped_doc_fields)
        from continued(2)[unfolded s2] show ?thesis
        proof (cases rule: seqE)
          case (raised e)
          then show ?thesis by (auto simp: reading_def evolves_refl)
        next
          case (continued its s3)
          have s3: "s3 = s" using continued(1) by (auto simp: reading_def)
          let ?dn = "dn0\<lparr>shopify_order_id := order_id f,
                            shopify_order_number := o_name order,
                            set_posting_time := 1,
                            posting_date := getdate fw (f_created_at f),
                            shopify_fulfillment_id := f_id f,
                            naming_series := or_str (delivery_note_series st) ''DN-Shopify-'',
                            items := its\<rparr>"
          have ok: "\<And>n v. may_add (?dn\<lparr>name := n, docstatus := v\<rparr>) (db s)" "\<And>n. may_add (?dn\<lparr>name := n\<rparr>) (db s)"
            using True dn0 by (auto intro!: no_delivery_note_may_add)
          from continued(2)[unfolded s3] have
            "seq (insert_doc fw ?dn) (\<lambda>dn.
             seq (submit fw dn) (\<lambda>dn.
             seq commit (\<lambda>_.
               return (acc @ [name dn])))) s = (r1, s1)"
            by (simp add: seq_return)
          from this consistent_wf[OF c] show ?thesis
          proof (cases rule: insert_submit_cases)
            case (unchanged e)
            then show ?thesis by (simp add: evolves_refl)
          next
            case (draft e)
            then show ?thesis using ok by (auto intro!: evolves_add)
          next
            case submitted
            let ?dn1 = "?dn\<lparr>name := (naming_series ?dn, series (db s)), docstatus := 1\<rparr>"
            let ?s1 = "s\<lparr>db := add_document ?dn1 (db s)\<rparr>"
            have e1: "evolves s ?s1" using ok by (auto intro!: evolves_add)
            from submitted have "s1 = ?s1\<lparr>committed := db ?s1\<rparr>"
              by (simp add: seq_def commit_def return_def)
            with e1 show ?thesis by (rule evolves_then_commit)
          qed
        qed
      qed
    qed
  qed
  from run show ?case
  proof (cases rule: seqE)
    case (raised e)
    then show ?thesis using step by blast
  next
    case (continued acc' s1)
    have "evolves s s1" using step continued(1) by blast
    moreover have "evolves s1 s'" using Cons.IH continued(2) by blast
    ultimately show ?thesis by (rule evolves_trans)
  qed
qed

lemma try_evolves:
  assumes "try_except_else body handler orelse s = (r, s')"
    and "\<And>r1 s1. body s = (r1, s1) \<Longrightarrow> evolves s s1"
    and "\<And>e s1. handler e s1 = (r, s') \<Longrightarrow> evolves s1 s'"
    and "\<And>x s1. orelse x s1 = (r, s') \<Longrightarrow> evolves s1 s'"
  shows "evolves s s'"
  using assms(1)
proof (cases rule: try_except_elseE)
  case (caught e s1)
  then show ?thesis using assms(2,3) evolves_trans by blast
next
  case (passed x s1)
  then show ?thesis using assms(2,4) evolves_trans by blast
qed

lemma log_then_return_evolves:
  assumes "seq (make_shopify_log st payload e False) (\<lambda>_. return x) s = (r, s')"
  shows "evolves s s'"
proof -
  have "s' = snd (make_shopify_log st payload e False s)"
    using assms by (simp add: seq_def make_shopify_log_run return_def)
  then show ?thesis by (simp add: evolves_log)
qed

lemma order_try_body_evolves:
  assumes "order_try_body fw order st s = (r, s')"
  shows "evolves s s'"
proof -
  from order_body_cases[OF assms] show ?thesis
  proof
    assume "\<exists>e. r = Inl e \<and> masters_added s s'"
    then show ?thesis by (auto intro: evolves_masters)
  next
    assume "\<exists>s2. masters_added s s2
              \<and> seq (validate_customer fw order st) (\<lambda>_. validate_item fw order st) s = (Inr (), s2)
              \<and> create_sales_order fw order st None s2 = (r, s')"
    then obtain s2 where "masters_added s s2" "create_sales_order fw order st None s2 = (r, s')"
      by blast
    then show ?thesis using evolves_masters create_sales_order_evolves evolves_trans by blast
  qed
qed

lemma create_shopify_order_evolves:
  assumes "create_shopify_order fw order rid s = (r, s')"
  shows "evolves s s'"
proof -
  let ?s0 = "s\<lparr>request_id := rid\<rparr>"
  have e0: "evolves s ?s0" by (rule evolves_flags)
  have "evolves ?s0 s'"
  proof (cases "o_id order")
    case None
    then have "s' = ?s0" using assms
      by (simp add: create_shopify_order_def get_single_def set_request_id_def seq_def reading_def
          subscript_def)
    then show ?thesis by (simp add: evolves_refl)
  next
    case (Some oid)
    let ?ex = "get_value (db s) Sales_Order
            (\<lambda>d. docstatus d < 2 \<and> field_is (shopify_order_id d) (Some oid))"
    show ?thesis
    proof (cases ?ex)
      case (Some n)
      then have "s' = ?s0" using assms \<open>o_id order = Some oid\<close>
        by (auto simp: create_shopify_order_def get_single_def set_request_id_def seq_def reading_def
            subscript_def return_def split: sum.splits)
      then show ?thesis by (simp add: evolves_refl)
    next
      case None
      then have "try_except_else
              (order_try_body fw order (settings (db s)))
              (\<lambda>e. seq (make_shopify_log Error order (Some e) False) (\<lambda>_. return None))
              (\<lambda>so. seq (make_shopify_log Success order None False) (\<lambda>_. return (Some so))) ?s0
            = (r, s')"
        using assms \<open>o_id order = Some oid\<close>
        by (simp add: create_shopify_order_def get_single_def set_request_id_def
            seq_def[of get_single] seq_def[of "set_request_id _"] seq_def[of "reading _"]
            reading_def subscript_def)
      then show ?thesis
        by (rule try_evolves) (auto intro: order_try_body_evolves log_then_return_evolves)
    qed
  qed
  with e0 show ?thesis by (rule evolves_trans)
qed

lemma create_shopify_invoice_evolves:
  assumes "create_shopify_invoice fw order so rid s = (r, s')"
  shows "evolves s s'"
proof -
  let ?s0 = "s\<lparr>request_id := rid\<rparr>"
  have e0: "evolves s ?s0" by (rule evolves_flags)
  have "evolves ?s0 s'"
  proof (cases "financial_status order \<in> {Some ''paid'', Some ''refunded''}")
    case False
    then have "s' = ?s0" using assms
      by (simp add: create_shopify_invoice_def get_single_def set_request_id_def seq_def return_def)
    then show ?thesis by (simp add: evolves_refl)
  next
    case True
    then have "try_except_else
           (invoice_try_body fw order (settings (db s)) so)
           (\<lambda>e. seq (make_shopify_log Error order (Some e) False) (\<lambda>_. return None))
           return ?s0 = (r, s')"
      using assms
      by (simp add: create_shopify_invoice_def get_single_def set_request_id_def
          seq_def[of get_single] seq_def[of "set_request_id _"])
    then show ?thesis
      by (rule try_evolves)
         (auto simp: return_def evolves_refl intro: invoice_try_body_evolves log_then_return_evolves)
  qed
  with e0 show ?thesis by (rule evolves_trans)
qed

lemma create_delivery_note_evolves:
  assumes "create_delivery_note fw order st so s = (r, s')"
  shows "evolves s s'"
proof (cases "sync_delivery_note st = 0")
  case True
  then show ?thesis using assms by (simp add: create_delivery_note_def return_def evolves_refl)
next
  case False
  then have "seq (reading (\<lambda>t. iter (fulfillments order))) (\<lambda>fs.
        seq (delivery_note_loop fw order st so [] fs) (\<lambda>delivery_notes.
          return (Some delivery_notes))) s = (r, s')"
    using assms by (simp add: create_delivery_note_def)
  then show ?thesis
  proof (cases rule: seqE)
    case (raised e)
    then show ?thesis by (auto simp: reading_def evolves_refl)
  next
    case (continued fs s1)
    then have s1: "s1 = s" by (auto simp: reading_def)
    from continued(2)[unfolded s1] show ?thesis
    proof (cases rule: seqE)
      case (raised e)
      then show ?thesis by (auto intro: delivery_note_loop_evolves)
    next
      case (continued x s2)
      then show ?thesis by (auto simp: return_def intro: delivery_note_loop_evolves)
    qed
  qed
qed

lemma create_shopify_delivery_evolves:
  assumes "create_shopify_delivery fw order so rid s = (r, s')"
  shows "evolves s s'"
proof -
  let ?s0 = "s\<lparr>request_id := rid\<rparr>"
  have e0: "evolves s ?s0" by (rule evolves_flags)
  have "evolves ?s0 s'"
  proof (cases "truthy_list (fulfillments order)")
    case False
    then have "s' = ?s0" using assms
      by (simp add: create_shopify_delivery_def get_single_def set_request_id_def seq_def return_def)
    then show ?thesis by (simp add: evolves_refl)
  next
    case True
    then have "try_except_else
           (create_delivery_note fw order (settings (db s)) so)
           (\<lambda>e. seq (make_shopify_log Error order (Some e) False) (\<lambda>_. return None))
           return ?s0 = (r, s')"
      using assms
      by (simp add: create_shopify_delivery_def get_single_def set_request_id_def
          seq_def[of get_single] seq_def[of "set_request_id _"])
    then show ?thesis
      by (rule try_evolves)
         (auto simp: return_def evolves_refl intro: create_delivery_note_evolves log_then_return_evolves)
  qed
  with e0 show ?thesis by (rule evolves_trans)
qed

lemma sync_sales_order_evolves:
  assumes "sync_sales_order fw order rid s = (r, s')"
  shows "evolves s s'"
proof -
  let ?s0 = "s\<lparr>session_user := ''Administrator'', request_id := rid\<rparr>"
  have e0: "evolves s ?s0" using evolves_flags evolves_trans by blast
  from assms have "seq (create_shopify_order fw order rid) (\<lambda>so.
       (case so of
          Some so \<Rightarrow>
            seq (create_shopify_invoice fw order so rid) (\<lambda>_.
            seq (create_shopify_delivery fw order so rid) (\<lambda>_.
              return ()))
        | None \<Rightarrow> return ())) ?s0 = (r, s')"
    by (simp add: sync_sales_order_def set_user_def set_request_id_def seq_def[of "set_user _"]
        seq_def[of "set_request_id _"])
  then have "evolves ?s0 s'"
  proof (cases rule: seqE)
    case (raised e)
    then show ?thesis by (auto intro: create_shopify_order_evolves)
  next
    case (continued so s1)
    have e1: "evolves ?s0 s1" using continued(1) by (rule create_shopify_order_evolves)
    show ?thesis
    proof (cases so)
      case None
      then show ?thesis using continued(2) e1 by (simp add: return_def)
    next
      case (Some d)
      with continued(2) have "seq (create_shopify_invoice fw order d rid) (\<lambda>_.
            seq (create_shopify_delivery fw order d rid) (\<lambda>_. return ())) s1 = (r, s')" by simp
      then have "evolves s1 s'"
      proof (cases rule: seqE)
        case (raised e)
        then show ?thesis by (auto intro: create_shopify_invoice_evolves)
      next
        case (continued x s2)
        have "evolves s1 s2" using continued(1) by (rule create_shopify_invoice_evolves)
        moreover have "evolves s2 s'" using continued(2)
          by (auto simp: seq_def return_def split: prod.splits sum.splits
              intro: create_shopify_delivery_evolves)
        ultimately show ?thesis by (rule evolves_trans)
      qed
      with e1 show ?thesis by (rule evolves_trans)
    qed
  qed
  with e0 show ?thesis by (rule evolves_trans)
qed

section \<open>Exceptions in the stages\<close>

lemma with_error_log_run:
  "seq (make_shopify_log Error order (Some e) False) (\<lambda>_. return None) s
     = (Inr None, with_error_log order e s)"
  by (simp add: seq_def make_shopify_log_run return_def with_error_log_def error_log_def)

lemma get_value_get_doc:
  assumes "get_value t dt P = Some n"
  shows "\<exists>d. get_doc dt n t = Inr d"
proof -
  from assms obtain d0 where "find (\<lambda>d. doctype d = dt \<and> P d) (documents t) = Some d0" "name d0 = n"
    by (auto simp: get_value_def)
  then have "d0 \<in> set (documents t)" "doctype d0 = dt" by (auto simp: find_Some_iff)
  then show ?thesis using \<open>name d0 = n\<close>
    by (cases "find (\<lambda>x. doctype x = dt \<and> name x = n) (documents t)")
       (auto simp: get_doc_def find_None_iff)
qed

lemma create_shopify_order_caught:
  assumes "o_id order = Some oid"
    and "\<forall>d \<in> set (documents (db s)).
           \<not> (doctype d = Sales_Order \<and> docstatus d < 2 \<and> shopify_order_id d = Some oid)"
    and "order_try_body fw order (settings (db s)) (s\<lparr>request_id := rid\<rparr>) = (Inl e, s1)"
  shows "create_shopify_order fw order rid s = (Inr None, with_error_log order e s1)"
proof -
  have none: "get_value (db s) Sales_Order
      (\<lambda>d. docstatus d < 2 \<and> field_is (shopify_order_id d) (Some oid)) = None"
    using assms(2) by (auto simp: get_value_None_iff field_is_def)
  show ?thesis using assms(1,3) none
    by (simp add: create_shopify_order_def get_single_def set_request_id_def seq_def[of get_single]
        seq_def[of "set_request_id _"] seq_def[of "reading _"] reading_def subscript_def
        try_except_else_def with_error_log_run)
qed

lemma create_shopify_invoice_caught:
  assumes "financial_status order \<in> {Some ''paid'', Some ''refunded''}"
    and "invoice_try_body fw order (settings (db s)) so (s\<lparr>request_id := rid\<rparr>) = (Inl e, s1)"
  shows "create_shopify_invoice fw order so rid s = (Inr None, with_error_log order e s1)"
  using assms
  by (simp add: create_shopify_invoice_def get_single_def set_request_id_def seq_def[of get_single]
      seq_def[of "set_request_id _"] try_except_else_def with_error_log_run)

lemma create_shopify_delivery_caught:
  assumes "truthy_list (fulfillments order)"
    and "create_delivery_note fw order (settings (db s)) so (s\<lparr>request_id := rid\<rparr>) = (Inl e, s1)"
  shows "create_shopify_delivery fw order so rid s = (Inr None, with_error_log order e s1)"
  using assms
  by (simp add: create_shopify_delivery_def get_single_def set_request_id_def seq_def[of get_single]
      seq_def[of "set_request_id _"] try_except_else_def with_error_log_run)

lemma create_shopify_order_returns:
  assumes "o_id order = Some oid"
  shows "\<exists>x. fst (create_shopify_order fw order rid s) = Inr x"
proof (cases "get_value (db s) Sales_Order
            (\<lambda>d. docstatus d < 2 \<and> field_is (shopify_order_id d) (Some oid))")
  case None
  then show ?thesis using assms
    by (auto simp: create_shopify_order_def get_single_def set_request_id_def seq_def[of get_single]
        seq_def[of "set_request_id _"] seq_def[of "reading _"] reading_def subscript_def
        try_except_else_def with_error_log_run seq_def[of "make_shopify_log _ _ _ _"]
        make_shopify_log_run return_def split: prod.splits sum.splits)
next
  case (Some n)
  from get_value_get_doc[OF Some] obtain d where "get_doc Sales_Order n (db s) = Inr d" by blast
  then show ?thesis using assms Some
    by (simp add: create_shopify_order_def get_single_def set_request_id_def seq_def reading_def
        subscript_def return_def)
qed

lemma create_shopify_invoice_returns:
  "\<exists>x. fst (create_shopify_invoice fw order so rid s) = Inr x"
  by (auto simp: create_shopify_invoice_def get_single_def set_request_id_def seq_def[of get_single]
      seq_def[of "set_request_id _"] try_except_else_def with_error_log_run return_def
      split: prod.splits sum.splits)

lemma create_shopify_delivery_returns:
  "\<exists>x. fst (create_shopify_delivery fw order so rid s) = Inr x"
  by (auto simp: create_shopify_delivery_def get_single_def set_request_id_def seq_def[of get_single]
      seq_def[of "set_request_id _"] try_except_else_def with_error_log_run return_def
      split: prod.splits sum.splits)

lemma sync_sales_order_returns:
  assumes "o_id order = Some oid"
  shows "fst (sync_sales_order fw order rid s) = Inr ()"
proof -
  let ?s0 = "s\<lparr>session_user := ''Administrator'', request_id := rid\<rparr>"
  obtain x s1 where 1: "create_shopify_order fw order rid ?s0 = (Inr x, s1)"
    using create_shopify_order_returns[OF assms, of fw rid ?s0]
    by (cases "create_shopify_order fw order rid ?s0") auto
  show ?thesis
  proof (cases x)
    case None
    then show ?thesis using 1
      by (simp add: sync_sales_order_def set_user_def set_request_id_def seq_def return_def)
  next
    case (Some so)
    obtain y s2 where 2: "create_shopify_invoice fw order so rid s1 = (Inr y, s2)"
      using create_shopify_invoice_returns[of fw order so rid s1]
      by (cases "create_shopify_invoice fw order so rid s1") auto
    obtain z s3 where 3: "create_shopify_delivery fw order so rid s2 = (Inr z, s3)"
      using create_shopify_delivery_returns[of fw order so rid s2]
      by (cases "create_shopify_delivery fw order so rid s2") auto
    show ?thesis using 1 2 3 Some
      by (simp add: sync_sales_order_def set_user_def set_request_id_def seq_def return_def)
  qed
qed

lemma cancel_doctype_run:
  assumes "o_id order = Some oid"
  shows "cancel_doctype fw order dt s =
     (Inr (),
      case get_value (db s) dt (\<lambda>d. docstatus d = 1 \<and> shopify_order_id d = Some oid) of
        None \<Rightarrow> s
      | Some n \<Rightarrow>
          (case fails fw (Cancel dt) (db s) of
             None \<Rightarrow> s\<lparr>db := set_docstatus dt n 2 (db s)\<rparr>
           | Some e \<Rightarrow>
               s\<lparr>db := (committed s)\<lparr>tabShopify_Log := tabShopify_Log (committed s)
                           @ [error_log order e (request_id s)]\<rparr>,
                 committed := (committed s)\<lparr>tabShopify_Log := tabShopify_Log (committed s)
                           @ [error_log order e (request_id s)]\<rparr>\<rparr>))"
proof (cases "get_value (db s) dt (\<lambda>d. docstatus d = 1 \<and> shopify_order_id d = Some oid)")
  case None
  then show ?thesis using assms
    by (simp add: cancel_doctype_def seq_def reading_def subscript_def return_def field_is_def)
next
  case (Some n)
  from get_value_get_doc[OF Some] obtain d where d: "get_doc dt n (db s) = Inr d" by blast
  from get_doc_Inr[OF d] have dd: "doctype d = dt" "name d = n" by simp_all
  show ?thesis using assms Some d dd
    by (simp add: cancel_doctype_def seq_def reading_def subscript_def return_def
        try_except_else_def cancel_def framework_call_def modify_db_def make_shopify_log_def
        rollback_def commit_def error_log_def field_is_def split: option.splits)
qed

section \<open>Stages that succeed\<close>

lemma make_payment_entry_success:
  assumes "make_payment_entry_against_sales_invoice fw doc st s = (Inr x, s')"
    and "wf_names (db s)"
  shows "\<exists>pe. s' = s\<lparr>db := add_document pe (db s)\<rparr>
           \<and> doctype pe = Payment_Entry \<and> docstatus pe = 1 \<and> snd (name pe) = series (db s)
           \<and> made_from pe = Some (name doc) \<and> reference_no pe = Some (name doc)"
  using assms(1)[unfolded make_payment_entry_against_sales_invoice_def]
proof (cases rule: seqE)
  case (continued pe s1)
  from get_payment_entry_state[OF continued(1)] have s1: "s1 = s"
    and pe: "doctype pe = Payment_Entry" "made_from pe = Some (name doc)"
    by auto
  from continued(2)[unfolded s1] have
    "seq (insert_doc fw (pe\<lparr>reference_no := Some (name doc), reference_date := Some (nowdate fw)\<rparr>))
       (\<lambda>d. seq (submit fw d) (\<lambda>_. return ())) s = (Inr x, s')"
    by (simp add: seq_return)
  from this assms(2) show ?thesis
  proof (cases rule: insert_submit_cases)
    case submitted
    then show ?thesis using pe
      by (intro exI[of _ "pe\<lparr>reference_no := Some (name doc), reference_date := Some (nowdate fw),
            name := (naming_series pe, series (db s)), docstatus := 1\<rparr>"])
         (simp add: return_def)
  qed simp_all
qed simp


lemma no_invoice_get_value:
  assumes "\<forall>d \<in> set (documents t). \<not> (doctype d = Sales_Invoice \<and> shopify_order_id d = v)"
  shows "get_value t Sales_Invoice (\<lambda>d. field_is (shopify_order_id d) v) = None"
  using assms by (cases v) (auto simp: get_value_None_iff field_is_def)

lemma create_sales_invoice_success:
  assumes run: "create_sales_invoice fw order st so s = (Inr x, s')"
    and wf: "wf_names (db s)"
    and guard: "get_value (db s) Sales_Invoice (\<lambda>d. field_is (shopify_order_id d) (o_id order)) = None"
      "docstatus so = 1" "per_billed so = 0" "sync_sales_invoice st \<noteq> 0"
  shows "\<exists>si pe. x = Some (name si)
           \<and> s' = s\<lparr>db := add_document pe (add_document si (db s)),
                     committed := add_document pe (add_document si (db s))\<rparr>
           \<and> doctype si = Sales_Invoice \<and> shopify_order_id si = o_id order \<and> docstatus si = 1
           \<and> made_from si = Some (name so) \<and> \<not> is_return si \<and> snd (name si) = series (db s)
           \<and> doctype pe = Payment_Entry \<and> docstatus pe = 1
           \<and> made_from pe = Some (name si) \<and> reference_no pe = Some (name si)
           \<and> wf_names (db s')"
proof -
  from run guard have "seq (make_sales_invoice fw (name so)) (\<lambda>si.
         seq (return (si\<lparr>shopify_order_id := o_id order,
                         shopify_order_number := o_name order,
                         set_posting_time := 1,
                         posting_date := getdate fw (created_at order),
                         naming_series := or_str (sales_invoice_series st) ''SI-Shopify-'',
                         items := set_cost_center (items si) (cost_center st)\<rparr>)) (\<lambda>si.
         seq (insert_doc fw si) (\<lambda>si.
         seq (submit fw si) (\<lambda>si.
         seq (make_payment_entry_against_sales_invoice fw si st) (\<lambda>_.
         seq commit (\<lambda>_.
           return (Some (name si)))))))) s = (Inr x, s')"
    by (simp add: create_sales_invoice_def seq_reading_Inr)
  then show ?thesis
  proof (cases rule: seqE)
    case (continued si0 s1)
    have s1: "s1 = s" using mapper_state continued(1) by blast
    from make_sales_invoice_Inr[OF continued(1)] obtain src where
      src: "get_doc Sales_Order (name so) (db s) = Inr src" "si0 = mapped_doc Sales_Invoice src"
      by blast
    have si0: "doctype si0 = Sales_Invoice" "made_from si0 = Some (name so)" "\<not> is_return si0"
      using src get_doc_Inr[OF src(1)] by (simp_all add: mapped_doc_fields)
    let ?si = "si0\<lparr>shopify_order_id := o_id order,
                         shopify_order_number := o_name order,
                         set_posting_time := 1,
                         posting_date := getdate fw (created_at order),
                         naming_series := or_str (sales_invoice_series st) ''SI-Shopify-'',
                         items := set_cost_center (items si0) (cost_center st)\<rparr>"
    let ?si1 = "?si\<lparr>name := (naming_series ?si, series (db s)), docstatus := 1\<rparr>"
    let ?s1 = "s\<lparr>db := add_document ?si1 (db s)\<rparr>"
    from continued(2)[unfolded s1] have
      "seq (insert_doc fw ?si) (\<lambda>si.
       seq (submit fw si) (\<lambda>si.
       seq (make_payment_entry_against_sales_invoice fw si st) (\<lambda>_.
       seq commit (\<lambda>_.
         return (Some (name si)))))) s = (Inr x, s')"
      by (simp add: seq_return)
    from this wf show ?thesis
    proof (cases rule: insert_submit_cases)
      case submitted
      then show ?thesis
      proof (cases rule: seqE)
        case (continued u s2)
        have wf1: "wf_names (db ?s1)" using wf by (simp add: wf_names_add_document)
        from make_payment_entry_success[OF continued(1) wf1] obtain pe where
          pe: "s2 = ?s1\<lparr>db := add_document pe (db ?s1)\<rparr>" "doctype pe = Payment_Entry"
            "docstatus pe = 1" "made_from pe = Some (name ?si1)" "reference_no pe = Some (name ?si1)"
            "snd (name pe) = series (db ?s1)"
          by blast
        have wf2: "wf_names (db s2)" using wf1 pe(1,6) by (simp add: wf_names_add_document)
        have x: "x = Some (name ?si1)" and s': "s' = s2\<lparr>committed := db s2\<rparr>"
          using continued(2) by (auto simp: seq_def commit_def return_def)
        show ?thesis
          by (rule exI[of _ ?si1], rule exI[of _ pe]) (use x s' pe(1-5) si0 wf2 in simp)
      qed simp
    qed simp_all
  qed simp
qed

lemma create_shopify_invoice_cases:
  assumes "create_shopify_invoice fw order so rid s = (r, s')"
    and "financial_status order \<in> {Some ''paid'', Some ''refunded''}"
  shows "(\<exists>e sx. invoice_try_body fw order (settings (db s)) so (s\<lparr>request_id := rid\<rparr>) = (Inl e, sx)
            \<and> r = Inr None \<and> s' = with_error_log order e sx)
       \<or> (\<exists>x. invoice_try_body fw order (settings (db s)) so (s\<lparr>request_id := rid\<rparr>) = (Inr x, s')
            \<and> r = Inr x)"
  using assms
  by (auto simp: create_shopify_invoice_def get_single_def set_request_id_def seq_def[of get_single]
      seq_def[of "set_request_id _"] try_except_else_def with_error_log_run return_def
      split: prod.splits sum.splits)

lemma logs_grow:
  assumes "evolves s s'" "consistent s"
  shows "length (tabShopify_Log (db s)) \<le> length (tabShopify_Log (db s'))"
  using assms by (auto simp: evolves_def)

lemma invoice_try_body_success:
  assumes run: "invoice_try_body fw order st so s = (Inr x, s')"
    and wf: "wf_names (db s)"
    and guard: "get_value (db s) Sales_Invoice (\<lambda>d. field_is (shopify_order_id d) (o_id order)) = None"
      "docstatus so = 1" "per_billed so = 0" "sync_sales_invoice st \<noteq> 0"
  shows "\<exists>si pe. x = Some (name si)
           \<and> doctype si = Sales_Invoice \<and> shopify_order_id si = o_id order \<and> docstatus si = 1
           \<and> made_from si = Some (name so) \<and> \<not> is_return si
           \<and> doctype pe = Payment_Entry \<and> docstatus pe = 1
           \<and> made_from pe = Some (name si) \<and> reference_no pe = Some (name si)
           \<and> tabShopify_Log (db s') = tabShopify_Log (db s)
           \<and> (if financial_status order = Some ''refunded''
               then \<exists>ret. documents (db s') = documents (db s) @ [si, pe, ret]
                      \<and> doctype ret = Sales_Invoice \<and> is_return ret
                      \<and> return_against ret = Some (name si) \<and> docstatus ret = 1
               else documents (db s') = documents (db s) @ [si, pe])"
  using run[unfolded invoice_try_body_def]
proof (cases rule: seqE)
  case (continued y s1)
  from create_sales_invoice_success[OF continued(1) wf guard] obtain si pe where
    sp: "y = Some (name si)"
      "s1 = s\<lparr>db := add_document pe (add_document si (db s)),
                     committed := add_document pe (add_document si (db s))\<rparr>"
      "doctype si = Sales_Invoice" "shopify_order_id si = o_id order" "docstatus si = 1"
      "made_from si = Some (name so)" "\<not> is_return si" "snd (name si) = series (db s)"
      "doctype pe = Payment_Entry" "docstatus pe = 1"
      "made_from pe = Some (name si)" "reference_no pe = Some (name si)"
      "wf_names (db s1)"
    by blast
  have docs1: "documents (db s1) = documents (db s) @ [si, pe]"
    "tabShopify_Log (db s1) = tabShopify_Log (db s)"
    using sp(2) by (simp_all add: add_document_def)
  show ?thesis
  proof (cases "financial_status order = Some ''refunded''")
    case False
    then have "s' = s1" "x = y" using continued(2) sp(1)
      by (auto simp: seq_def return_def)
    then show ?thesis using sp(1,3-12) docs1 False by auto
  next
    case True
    with continued(2) sp(1) have
      "seq (make_sales_return fw (name si)) (\<lambda>return_invoice.
         seq (insert_doc fw return_invoice) (\<lambda>return_invoice.
         seq (submit fw return_invoice) (\<lambda>_. return y))) s1 = (Inr x, s')"
      by (auto simp: seq_def return_def split: prod.splits sum.splits)
    then show ?thesis
    proof (cases rule: seqE)
      case (continued ret0 s2)
      have s2: "s2 = s1" using mapper_state continued(1) by blast
      from make_sales_return_Inr[OF continued(1)] obtain src where
        src: "get_doc Sales_Invoice (name si) (db s1) = Inr src"
          "ret0 = (mapped_doc Sales_Invoice src)\<lparr>is_return := True, return_against := Some (name src)\<rparr>"
        by blast
      have ret0: "doctype ret0 = Sales_Invoice" "is_return ret0" "return_against ret0 = Some (name si)"
        using src get_doc_Inr[OF src(1)] by (simp_all add: mapped_doc_fields)
      have wf1: "wf_names (db s1)" by (rule sp(13))
      from continued(2)[unfolded s2] wf1 show ?thesis
      proof (cases rule: insert_submit_cases)
        case submitted
        let ?ret = "ret0\<lparr>name := (naming_series ret0, series (db s1)), docstatus := 1\<rparr>"
        from submitted have "x = y" "s' = s1\<lparr>db := add_document ?ret (db s1)\<rparr>"
          by (simp_all add: return_def)
        then have "documents (db s') = documents (db s) @ [si, pe, ?ret]"
          "tabShopify_Log (db s') = tabShopify_Log (db s)"
          using docs1 by (simp_all add: add_document_def)
        then show ?thesis using sp(1,3-12) ret0 True \<open>x = y\<close>
          by (intro exI[of _ si] exI[of _ pe]) (auto intro!: exI[of _ ?ret])
      qed simp_all
    qed simp
  qed
qed simp

lemma sync_sales_order_cases:
  assumes "sync_sales_order fw order rid s = (r, s')"
  shows "(\<exists>e. create_shopify_order fw order rid
                (s\<lparr>session_user := ''Administrator'', request_id := rid\<rparr>) = (Inl e, s') \<and> r = Inl e)
       \<or> (create_shopify_order fw order rid
                (s\<lparr>session_user := ''Administrator'', request_id := rid\<rparr>) = (Inr None, s') \<and> r = Inr ())
       \<or> (\<exists>so s1 x s2 y.
             create_shopify_order fw order rid
                (s\<lparr>session_user := ''Administrator'', request_id := rid\<rparr>) = (Inr (Some so), s1)
             \<and> create_shopify_invoice fw order so rid s1 = (Inr x, s2)
             \<and> create_shopify_delivery fw order so rid s2 = (Inr y, s') \<and> r = Inr ())"
proof -
  let ?s0 = "s\<lparr>session_user := ''Administrator'', request_id := rid\<rparr>"
  obtain ro s1 where 1: "create_shopify_order fw order rid ?s0 = (ro, s1)"
    by (cases "create_shopify_order fw order rid ?s0")
  show ?thesis
  proof (cases ro)
    case (Inl e)
    then show ?thesis using assms 1
      by (simp add: sync_sales_order_def set_user_def set_request_id_def seq_def)
  next
    case (Inr x)
    show ?thesis
    proof (cases x)
      case None
      then show ?thesis using assms 1 Inr
        by (simp add: sync_sales_order_def set_user_def set_request_id_def seq_def return_def)
    next
      case (Some so)
      obtain y s2 where 2: "create_shopify_invoice fw order so rid s1 = (Inr y, s2)"
        using create_shopify_invoice_returns[of fw order so rid s1]
        by (cases "create_shopify_invoice fw order so rid s1") auto
      obtain z s3 where 3: "create_shopify_delivery fw order so rid s2 = (Inr z, s3)"
        using create_shopify_delivery_returns[of fw order so rid s2]
        by (cases "create_shopify_delivery fw order so rid s2") auto
      have "r = Inr ()" "s' = s3" using assms 1 2 3 Inr Some
        by (simp_all add: sync_sales_order_def set_user_def set_request_id_def seq_def return_def)
      then show ?thesis using 1 2 3 Inr Some by blast
    qed
  qed
qed

lemma create_shopify_delivery_unfulfilled:
  assumes "\<not> truthy_list (fulfillments order)"
  shows "create_shopify_delivery fw order so rid s = (Inr None, s\<lparr>request_id := rid\<rparr>)"
  using assms
  by (simp add: create_shopify_delivery_def get_single_def set_request_id_def seq_def return_def)

lemma order_try_body_success:
  assumes run: "order_try_body fw order st s = (Inr so, s')"
    and c: "consistent s"
    and fresh: "\<forall>d \<in> set (documents (db s)).
           \<not> (doctype d = Sales_Order \<and> docstatus d < 2 \<and> shopify_order_id d = o_id order)"
  shows "documents (db s') = documents (db s) @ [so] \<and> doctype so = Sales_Order
       \<and> shopify_order_id so = o_id order \<and> docstatus so = 1 \<and> per_billed so = 0
       \<and> wf_names (db s') \<and> settings (db s') = settings (db s)
       \<and> tabShopify_Log (db s') = tabShopify_Log (db s) \<and> request_id s' = request_id s"
proof -
  from order_body_cases[OF run] obtain s2 where s2: "masters_added s s2"
      "create_sales_order fw order st None s2 = (Inr so, s')" by auto
  note m = masters_added_documents[OF s2(1)]
  have wf2: "wf_names (db s2)"
    using consistent_wf[OF c] m by (simp add: wf_names_def)
  have none: "get_value (db s2) Sales_Order
          (\<lambda>d. docstatus d < 2 \<and> field_is (shopify_order_id d) (o_id order)) = None"
    using fresh m by (cases "o_id order") (auto simp: get_value_None_iff field_is_def)
  from create_sales_order_created[OF s2(2) none] have
    f: "doctype so = Sales_Order" "docstatus so = 1" "per_billed so = 0"
      "shopify_order_id so = o_id order" "snd (name so) = series (db s2)"
      "db s' = set_docstatus Sales_Order (name so) 1 (add_document (so\<lparr>docstatus := 0\<rparr>) (db s2))"
      "request_id s' = request_id s2"
    by auto
  have "db s' = add_document ((so\<lparr>docstatus := 0\<rparr>)\<lparr>docstatus := 1\<rparr>) (db s2)"
    using set_docstatus_add_document[OF wf2, of "so\<lparr>docstatus := 0\<rparr>" Sales_Order 1] f by simp
  then have db': "db s' = add_document so (db s2)"
    using docstatus_update_same[OF f(2)] by simp
  then have "wf_names (db s')" using wf2 f(5) by (simp add: wf_names_add_document)
  then show ?thesis using db' f m by (simp add: add_document_def)
qed

lemma consistent_flags: "consistent (s\<lparr>request_id := rid\<rparr>) = consistent s"
  "consistent (s\<lparr>session_user := u, request_id := rid\<rparr>) = consistent s"
  by (simp_all add: consistent_def)

section \<open>Shipping charges\<close>

text \<open>
  C1. The claim: each shipping charge contributes one actual-amount charge line per nested
  tax line, and a line built from the charge itself only when it has no nested tax lines.
  The code: \<^verbatim>\<open>[shipping_charge] or shipping_charge.get('tax_lines')\<close> is always
  \<^verbatim>\<open>[shipping_charge]\<close>, so a charge with the two nested tax lines VAT and Duty contributes
  the single line of the charge itself and none for VAT or Duty.
\<close>

theorem update_taxes_with_shipping_lines_drops_nested:
  "update_taxes_with_shipping_lines example_tables [] (Some [example_shipping_charge])
     example_settings =
   Inr [\<lparr>charge_type = ''Actual'', account_head = ''Freight - C'',
         description = Titled ''Standard'', tr_rate = None, tax_amount = Some 10,
         included_in_print_rate = None, tr_cost_center = Some ''Main - C''\<rparr>]"
  by (simp add: update_taxes_with_shipping_lines_def iter_def shipping_tax_lines_self
      example_shipping_charge_def and_then_def subscript_def get_tax_account_head_def
      example_tables_def example_settings_def truthy_str_def)
section \<open>Syncing an order twice\<close>



section \<open>A paid order that is not fulfilled\<close>

text \<open>
  C4, as amended. Take an order that is paid and has no fulfillments, in a consistent session
  where no Sales Order that is not cancelled and no Sales Invoice carries its id and where
  invoice sync is switched on. When \<^verbatim>\<open>sync_sales_order\<close> writes the Success record of the
  order stage and no other log record (no stage logs an Error), it has appended exactly three
  documents: the Sales Order, the Sales Invoice made from it and the Payment Entry against that
  invoice, each submitted. The delivery stage of such an order returns at once, so no Delivery
  Note is created.
\<close>

theorem paid_unfulfilled_order_documents:
  assumes paid: "financial_status order = Some ''paid''"
    and nof: "\<not> truthy_list (fulfillments order)"
    and oid: "o_id order = Some oid"
    and c: "consistent s"
    and fresh_so: "\<forall>d \<in> set (documents (db s)).
           \<not> (doctype d = Sales_Order \<and> docstatus d < 2 \<and> shopify_order_id d = Some oid)"
    and fresh_si: "\<forall>d \<in> set (documents (db s)).
           \<not> (doctype d = Sales_Invoice \<and> shopify_order_id d = Some oid)"
    and sync: "sync_sales_invoice (settings (db s)) \<noteq> 0"
    and run: "sync_sales_order fw order rid s = (r, s')"
    and log: "tabShopify_Log (db s') = tabShopify_Log (db s) @ [success_log order rid]"
  shows "(\<exists>so si pe. documents (db s') = documents (db s) @ [so, si, pe]
           \<and> doctype so = Sales_Order \<and> shopify_order_id so = Some oid \<and> docstatus so = 1
           \<and> doctype si = Sales_Invoice \<and> shopify_order_id si = Some oid \<and> docstatus si = 1
           \<and> made_from si = Some (name so) \<and> \<not> is_return si
           \<and> doctype pe = Payment_Entry \<and> docstatus pe = 1 \<and> made_from pe = Some (name si)
           \<and> reference_no pe = Some (name si))
       \<and> r = Inr ()
       \<and> (\<forall>so s0. create_shopify_delivery fw order so rid s0 = (Inr None, s0\<lparr>request_id := rid\<rparr>))"
proof -
  let ?s0 = "s\<lparr>session_user := ''Administrator'', request_id := rid\<rparr>"
  let ?body = "order_try_body fw order (settings (db ?s0)) (?s0\<lparr>request_id := rid\<rparr>)"
  have fresh0: "\<forall>d \<in> set (documents (db ?s0)).
           \<not> (doctype d = Sales_Order \<and> docstatus d < 2 \<and> shopify_order_id d = Some oid)"
    using fresh_so by simp
  have no_error: False
    if "tabShopify_Log (db s') = xs @ [error_log order e q]" for xs e q
    using that log by (simp add: error_log_def success_log_def)
  note deliv = create_shopify_delivery_unfulfilled[OF nof]
  from sync_sales_order_cases[OF run] consider
    (raised) e where "create_shopify_order fw order rid ?s0 = (Inl e, s')"
    | (none) "create_shopify_order fw order rid ?s0 = (Inr None, s')"
    | (some) so s1 x s2 y where "create_shopify_order fw order rid ?s0 = (Inr (Some so), s1)"
        "create_shopify_invoice fw order so rid s1 = (Inr x, s2)"
        "create_shopify_delivery fw order so rid s2 = (Inr y, s')" "r = Inr ()"
    by blast
  then have "(\<exists>so si pe. documents (db s') = documents (db s) @ [so, si, pe]
           \<and> doctype so = Sales_Order \<and> shopify_order_id so = Some oid \<and> docstatus so = 1
           \<and> doctype si = Sales_Invoice \<and> shopify_order_id si = Some oid \<and> docstatus si = 1
           \<and> made_from si = Some (name so) \<and> \<not> is_return si
           \<and> doctype pe = Payment_Entry \<and> docstatus pe = 1 \<and> made_from pe = Some (name si)
           \<and> reference_no pe = Some (name si)) \<and> r = Inr ()"
  proof cases
    case (raised e)
    then show ?thesis using create_shopify_order_returns[OF oid, of fw rid ?s0] by simp
  next
    case none
    from create_shopify_order_new_cases[OF none oid fresh0]
    obtain e sx where "s' = snd (make_shopify_log Error order (Some e) False sx)" by auto
    then have "tabShopify_Log (db s') = tabShopify_Log (db sx) @ [error_log order e (request_id sx)]"
      by (simp add: make_shopify_log_run error_log_def)
    then show ?thesis using no_error by blast
  next
    case (some so s1 x s2 y)
    from create_shopify_order_new_cases[OF some(1) oid fresh0]
    obtain sb where body: "?body = (Inr so, sb)"
      and s1: "s1 = snd (make_shopify_log Success order None False sb)" by auto
    have fresh0': "\<forall>d \<in> set (documents (db (?s0\<lparr>request_id := rid\<rparr>))).
           \<not> (doctype d = Sales_Order \<and> docstatus d < 2 \<and> shopify_order_id d = o_id order)"
      using fresh_so oid by simp
    have c0: "consistent (?s0\<lparr>request_id := rid\<rparr>)" using c by (simp add: consistent_def)
    from order_try_body_success[OF body c0 fresh0'] have
      sb: "documents (db sb) = documents (db s) @ [so]" "doctype so = Sales_Order"
        "shopify_order_id so = Some oid" "docstatus so = 1" "per_billed so = 0"
        "wf_names (db sb)" "settings (db sb) = settings (db s)"
      using oid by simp_all
    have s1f: "documents (db s1) = documents (db s) @ [so]" "wf_names (db s1)"
        "settings (db s1) = settings (db s)"
      using s1 sb by (simp_all add: make_shopify_log_run wf_names_def)
    let ?s1 = "s1\<lparr>request_id := rid\<rparr>"
    have guard: "get_value (db ?s1) Sales_Invoice (\<lambda>d. field_is (shopify_order_id d) (o_id order)) = None"
      using fresh_si s1f(1) sb(2) oid by (intro no_invoice_get_value) auto
    have paid': "financial_status order \<in> {Some ''paid'', Some ''refunded''}" using paid by simp
    have s': "s' = s2\<lparr>request_id := rid\<rparr>" using some(3) deliv by simp
    from create_shopify_invoice_cases[OF some(2) paid'] show ?thesis
    proof
      assume "\<exists>e sx. invoice_try_body fw order (settings (db s1)) so ?s1 = (Inl e, sx)
            \<and> Inr x = Inr None \<and> s2 = with_error_log order e sx"
      then obtain e sx where "s2 = with_error_log order e sx" by blast
      then have "tabShopify_Log (db s') = tabShopify_Log (db sx) @ [error_log order e (request_id sx)]"
        using s' by (simp add: with_error_log_def)
      then show ?thesis using no_error by blast
    next
      assume "\<exists>x'. invoice_try_body fw order (settings (db s1)) so ?s1 = (Inr x', s2)
            \<and> Inr x = Inr x'"
      then have ok: "invoice_try_body fw order (settings (db s1)) so ?s1 = (Inr x, s2)" by simp
      have wf1: "wf_names (db ?s1)" using s1f(2) by simp
      have sy: "sync_sales_invoice (settings (db s1)) \<noteq> 0" using sync s1f(3) by simp
      from invoice_try_body_success[OF ok wf1 guard sb(4) sb(5) sy] paid oid
      obtain si pe where "doctype si = Sales_Invoice" "shopify_order_id si = Some oid"
        "docstatus si = 1" "made_from si = Some (name so)" "\<not> is_return si"
        "doctype pe = Payment_Entry" "docstatus pe = 1" "made_from pe = Some (name si)"
        "reference_no pe = Some (name si)" "documents (db s2) = documents (db ?s1) @ [si, pe]"
        by auto
      then show ?thesis using s' s1f(1) sb(2,3,4) some(4)
        by (intro conjI exI[of _ so] exI[of _ si] exI[of _ pe]) simp_all
    qed
  qed
  then show ?thesis using deliv by blast
qed

theorem paid_unfulfilled_order_documents_witness:
  "(\<exists>so si pe.
      documents (db (snd (sync_sales_order example_fw example_order None example_state)))
        = documents (db example_state) @ [so, si, pe]
      \<and> doctype so = Sales_Order \<and> shopify_order_id so = Some 1001 \<and> docstatus so = 1
      \<and> doctype si = Sales_Invoice \<and> shopify_order_id si = Some 1001 \<and> docstatus si = 1
      \<and> made_from si = Some (name so) \<and> \<not> is_return si
      \<and> doctype pe = Payment_Entry \<and> docstatus pe = 1 \<and> made_from pe = Some (name si)
      \<and> reference_no pe = Some (name si))
   \<and> fst (sync_sales_order example_fw example_order None example_state) = Inr ()"
proof -
  have pre: "financial_status example_order = Some ''paid''"
    "\<not> truthy_list (fulfillments example_order)"
    "o_id example_order = Some 1001"
    "\<forall>d \<in> set (documents (db example_state)).
           \<not> (doctype d = Sales_Order \<and> docstatus d < 2 \<and> shopify_order_id d = Some 1001)"
    "\<forall>d \<in> set (documents (db example_state)).
           \<not> (doctype d = Sales_Invoice \<and> shopify_order_id d = Some 1001)"
    "sync_sales_invoice (settings (db example_state)) \<noteq> 0"
    by (simp_all add: example_order_def truthy_list_def example_state_def example_tables_def
        example_settings_def)
  have run: "sync_sales_order example_fw example_order None example_state
      = (fst (sync_sales_order example_fw example_order None example_state),
         snd (sync_sales_order example_fw example_order None example_state))"
    by simp
  have log: "tabShopify_Log (db (snd (sync_sales_order example_fw example_order None example_state)))
      = tabShopify_Log (db example_state) @ [success_log example_order None]"
    using example_paid_run(1) by (simp add: example_state_def example_tables_def)
  from paid_unfulfilled_order_documents [OF pre(1,2,3) example_state_consistent(1) pre(4,5,6) run log]
  show ?thesis by blast
qed

text \<open>
  C4 as stated fails: the paid, unfulfilled order whose tax title has no tax account is synced
  without any document being created; the order stage logs an Error.
\<close>

theorem paid_unfulfilled_order_counterexample:
  "financial_status unmapped_tax_order = Some ''paid''
   \<and> fulfillments unmapped_tax_order = Some []
   \<and> documents (db (snd (sync_sales_order example_fw unmapped_tax_order None example_state))) = []
   \<and> map log_status (tabShopify_Log (db (snd (sync_sales_order example_fw unmapped_tax_order None
        example_state)))) = [Error]"
  using example_unmapped_run by (simp add: unmapped_tax_order_def example_order_def)

section \<open>Item resolution\<close>

text \<open>
  C5. With every Item carrying an item code, \<^verbatim>\<open>get_item_code\<close> returns the code of the first
  Item mapped to the line's variant id; failing that, of the first Item mapped to its product
  id (its own id when it has no product id); failing that, of the first Item whose name is the
  line's title; and nothing when none matches. When a line of the order resolves to nothing
  at the time the order is built (after customers and items have been validated), no Sales
  Order is stored, \<^verbatim>\<open>create_shopify_order\<close> returns nothing and an Error log is written.
\<close>

theorem get_item_code_priority:
  assumes codes: "\<forall>i \<in> set (tabItem t). i_item_code i \<noteq> []"
  shows "get_item_code t item =
           (case find (\<lambda>i. variant_id item \<noteq> None \<and> shopify_variant_id i = variant_id item) (tabItem t) of
              Some i \<Rightarrow> Some (i_item_code i)
            | None \<Rightarrow>
               (case find (\<lambda>i. or_int (product_id item) (li_id item) \<noteq> None
                              \<and> shopify_product_id i = or_int (product_id item) (li_id item)) (tabItem t) of
                  Some i \<Rightarrow> Some (i_item_code i)
                | None \<Rightarrow>
                   (case find (\<lambda>i. li_title item = Some (i_item_name i)) (tabItem t) of
                      Some i \<Rightarrow> Some (i_item_code i)
                    | None \<Rightarrow> None)))
       \<and> (o_id order = Some oid
            \<and> (\<forall>d \<in> set (documents (db s)).
                  \<not> (doctype d = Sales_Order \<and> docstatus d < 2 \<and> shopify_order_id d = Some oid))
            \<and> seq (validate_customer fw order (settings (db s)))
                  (\<lambda>_. validate_item fw order (settings (db s))) (s\<lparr>request_id := rid\<rparr>) = (Inr (), s2)
            \<and> line_items order = Some lis \<and> li \<in> set lis \<and> get_item_code (db s2) li = None
          \<longrightarrow> (\<exists>e s'. create_shopify_order fw order rid s = (Inr None, s')
                  \<and> documents (db s') = documents (db s)
                  \<and> tabShopify_Log (db s') = tabShopify_Log (db s) @ [error_log order e rid]))"
proof -
  let ?v = "find (\<lambda>i. variant_id item \<noteq> None \<and> shopify_variant_id i = variant_id item) (tabItem t)"
  let ?p = "find (\<lambda>i. or_int (product_id item) (li_id item) \<noteq> None
                              \<and> shopify_product_id i = or_int (product_id item) (li_id item)) (tabItem t)"
  let ?n = "find (\<lambda>i. li_title item = Some (i_item_name i)) (tabItem t)"
  have v: "item_value t (\<lambda>i. field_is (shopify_variant_id i) (variant_id item)) = map_option i_item_code ?v"
    by (simp add: item_value_def field_is_iff)
  have p: "item_value t (\<lambda>i. field_is (shopify_product_id i) (or_int (product_id item) (li_id item)))
             = map_option i_item_code ?p"
    by (simp add: item_value_def field_is_iff)
  have n: "item_value t (\<lambda>i. field_is (Some (i_item_name i)) (li_title item)) = map_option i_item_code ?n"
    by (auto simp: item_value_def field_is_iff intro!: arg_cong[where f="map_option i_item_code"] find_cong_pred)
  have ne: "\<And>P i. find P (tabItem t) = Some i \<Longrightarrow> i_item_code i \<noteq> []"
    using codes by (auto simp: find_Some_iff)
  have first: "get_item_code t item =
           (case ?v of Some i \<Rightarrow> Some (i_item_code i)
            | None \<Rightarrow> (case ?p of Some i \<Rightarrow> Some (i_item_code i)
                | None \<Rightarrow> (case ?n of Some i \<Rightarrow> Some (i_item_code i) | None \<Rightarrow> None)))"
    unfolding get_item_code_def Let_def v p n
    by (auto simp: truthy_str_def dest: ne split: option.splits)
  have fatal: "\<exists>e s'. create_shopify_order fw order rid s = (Inr None, s')
                  \<and> documents (db s') = documents (db s)
                  \<and> tabShopify_Log (db s') = tabShopify_Log (db s) @ [error_log order e rid]"
    if a: "o_id order = Some oid
            \<and> (\<forall>d \<in> set (documents (db s)).
                  \<not> (doctype d = Sales_Order \<and> docstatus d < 2 \<and> shopify_order_id d = Some oid))
            \<and> seq (validate_customer fw order (settings (db s)))
                  (\<lambda>_. validate_item fw order (settings (db s))) (s\<lparr>request_id := rid\<rparr>) = (Inr (), s2)
            \<and> line_items order = Some lis \<and> li \<in> set lis \<and> get_item_code (db s2) li = None"
  proof -
    obtain r s' where run: "create_shopify_order fw order rid s = (r, s')"
      by (cases "create_shopify_order fw order rid s")
    have "r = Inr None \<and> documents (db s') = documents (db s)
           \<and> (\<exists>e. tabShopify_Log (db s') = tabShopify_Log (db s) @ [error_log order e rid])"
    proof (rule order_stage_fails[OF run])
      show "o_id order = Some oid" using a by simp
      show "\<forall>d \<in> set (documents (db s)).
             \<not> (doctype d = Sales_Order \<and> docstatus d < 2 \<and> shopify_order_id d = Some oid)"
        using a by simp
    next
      fix s2'
      assume v: "seq (validate_customer fw order (settings (db s)))
                (\<lambda>_. validate_item fw order (settings (db s))) (s\<lparr>request_id := rid\<rparr>) = (Inr (), s2')"
      then have eq: "s2' = s2" using a by simp
      from masters_added_documents[OF validation_masters[OF v]]
      have same: "documents (db s2') = documents (db s)" by simp
      have "get_value (db s2') Sales_Order
          (\<lambda>d. docstatus d < 2 \<and> field_is (shopify_order_id d) (o_id order)) = None"
        using a same by (auto simp: get_value_None_iff field_is_def)
      moreover have "\<exists>lis. line_items order = Some lis
          \<and> (\<exists>li \<in> set lis. \<not> truthy_str (get_item_code (db s2') li))"
        using a eq by (auto simp: truthy_str_def intro!: bexI[of _ li])
      ultimately show "\<exists>e. create_sales_order fw order (settings (db s)) None s2' = (Inl e, s2')"
        by (intro create_sales_order_raises_unchanged) auto
    qed
    with run show ?thesis by blast
  qed
  from first fatal show ?thesis by blast
qed


theorem get_item_code_priority_witness:
  "get_item_code example_tables example_line_item = Some ''MUG''
   \<and> get_item_code example_tables (example_line_item\<lparr>variant_id := Some 71\<rparr>) = Some ''MUG''
   \<and> get_item_code example_tables (example_line_item\<lparr>variant_id := None, product_id := None\<rparr>) = Some ''MUG''
   \<and> get_item_code example_tables unknown_line_item = None
   \<and> (\<exists>e s'. create_shopify_order example_fw unresolved_order None example_state = (Inr None, s')
          \<and> documents (db s') = documents (db example_state)
          \<and> tabShopify_Log (db s') = tabShopify_Log (db example_state) @ [error_log unresolved_order e None])"
proof -
  have h: "\<forall>i \<in> set (tabItem example_tables). i_item_code i \<noteq> []"
    by (simp add: example_tables_def)
  have pre: "o_id unresolved_order = Some 1001
        \<and> (\<forall>d \<in> set (documents (db example_state)).
              \<not> (doctype d = Sales_Order \<and> docstatus d < 2 \<and> shopify_order_id d = Some 1001))
        \<and> seq (validate_customer example_fw unresolved_order (settings (db example_state)))
              (\<lambda>_. validate_item example_fw unresolved_order (settings (db example_state)))
              (example_state\<lparr>request_id := None\<rparr>) = (Inr (), example_state)
        \<and> line_items unresolved_order = Some [unknown_line_item]
        \<and> unknown_line_item \<in> set [unknown_line_item]
        \<and> get_item_code (db example_state) unknown_line_item = None"
    by (simp add: run_defs example_defs unresolved_order_def unknown_line_item_def)
  have 1: "get_item_code example_tables example_line_item = Some ''MUG''"
    using get_item_code_priority [OF h, of example_line_item]
    by (simp add: example_tables_def example_line_item_def)
  have 2: "get_item_code example_tables (example_line_item\<lparr>variant_id := Some 71\<rparr>) = Some ''MUG''"
    using get_item_code_priority [OF h, of "example_line_item\<lparr>variant_id := Some 71\<rparr>"]
    by (simp add: example_tables_def example_line_item_def or_int_def truthy_int_def)
  have 3: "get_item_code example_tables (example_line_item\<lparr>variant_id := None, product_id := None\<rparr>) = Some ''MUG''"
    using get_item_code_priority [OF h, of "example_line_item\<lparr>variant_id := None, product_id := None\<rparr>"]
    by (simp add: example_tables_def example_line_item_def or_int_def truthy_int_def)
  have 4: "get_item_code example_tables unknown_line_item = None"
    using get_item_code_priority [OF h, of unknown_line_item]
    by (simp add: example_tables_def unknown_line_item_def or_int_def truthy_int_def)
  from get_item_code_priority [OF h, of example_line_item unresolved_order 1001 example_state
      example_fw None example_state "[unknown_line_item]" unknown_line_item] pre
  have 5: "\<exists>e s'. create_shopify_order example_fw unresolved_order None example_state = (Inr None, s')
          \<and> documents (db s') = documents (db example_state)
          \<and> tabShopify_Log (db s') = tabShopify_Log (db example_state) @ [error_log unresolved_order e None]"
    by blast
  from 1 2 3 4 5 show ?thesis by blast
qed

section \<open>Tax account resolution\<close>



section \<open>The failure policy of the stages\<close>

text \<open>
  C7. In each of the three stages an exception raised by the guarded body is caught by the
  stage: the stage returns nothing, and the session in which the exception was raised is kept
  as it is, with one record of status Error that holds the exception appended to the log and
  everything committed; no document written before the exception is lost. For a payload with
  an id \<^verbatim>\<open>sync_sales_order\<close> always returns normally. In a consistent session every stage, and
  the whole sync, only appends to the committed documents: what an earlier stage has
  committed is still committed, unchanged, when a later stage ends.
\<close>

theorem stage_exceptions_are_caught:
  "(o_id order = Some oid
      \<and> (\<forall>d \<in> set (documents (db s)).
            \<not> (doctype d = Sales_Order \<and> docstatus d < 2 \<and> shopify_order_id d = Some oid))
      \<and> order_try_body fw order (settings (db s)) (s\<lparr>request_id := rid\<rparr>) = (Inl e1, s1)
    \<longrightarrow> create_shopify_order fw order rid s = (Inr None, with_error_log order e1 s1))
   \<and> (financial_status order \<in> {Some ''paid'', Some ''refunded''}
      \<and> invoice_try_body fw order (settings (db s)) so (s\<lparr>request_id := rid\<rparr>) = (Inl e2, s2)
    \<longrightarrow> create_shopify_invoice fw order so rid s = (Inr None, with_error_log order e2 s2))
   \<and> (truthy_list (fulfillments order)
      \<and> create_delivery_note fw order (settings (db s)) so (s\<lparr>request_id := rid\<rparr>) = (Inl e3, s3)
    \<longrightarrow> create_shopify_delivery fw order so rid s = (Inr None, with_error_log order e3 s3))
   \<and> (\<forall>e s'. tabShopify_Log (db (with_error_log order e s'))
                 = tabShopify_Log (db s') @ [error_log order e (request_id s')]
             \<and> log_status (error_log order e (request_id s')) = Error
             \<and> exception (error_log order e (request_id s')) = Some e
             \<and> documents (db (with_error_log order e s')) = documents (db s')
             \<and> documents (committed (with_error_log order e s')) = documents (db s'))
   \<and> (o_id order = Some oid \<longrightarrow> fst (sync_sales_order fw order rid s) = Inr ())
   \<and> (consistent s \<longrightarrow>
        (\<forall>s'. s' = snd (create_shopify_order fw order rid s)
                \<or> s' = snd (create_shopify_invoice fw order so rid s)
                \<or> s' = snd (create_shopify_delivery fw order so rid s)
                \<or> s' = snd (sync_sales_order fw order rid s)
            \<longrightarrow> consistent s'
                \<and> (\<exists>new. documents (committed s') = documents (committed s) @ new)
                \<and> (\<exists>new. documents (db s') = documents (db s) @ new)))"
proof -
  have keeps: "consistent s'
                \<and> (\<exists>new. documents (committed s') = documents (committed s) @ new)
                \<and> (\<exists>new. documents (db s') = documents (db s) @ new)"
    if "consistent s" and "s' = snd (create_shopify_order fw order rid s)
                \<or> s' = snd (create_shopify_invoice fw order so rid s)
                \<or> s' = snd (create_shopify_delivery fw order so rid s)
                \<or> s' = snd (sync_sales_order fw order rid s)" for s'
  proof -
    have "evolves s s'"
      using that(2) create_shopify_order_evolves[OF prod.collapse[symmetric]]
        create_shopify_invoice_evolves[OF prod.collapse[symmetric]]
        create_shopify_delivery_evolves[OF prod.collapse[symmetric]]
        sync_sales_order_evolves[OF prod.collapse[symmetric]] by blast
    then show ?thesis using that(1) by (simp add: evolves_def)
  qed
  have logged: "\<forall>e s'. tabShopify_Log (db (with_error_log order e s'))
                 = tabShopify_Log (db s') @ [error_log order e (request_id s')]
             \<and> log_status (error_log order e (request_id s')) = Error
             \<and> exception (error_log order e (request_id s')) = Some e
             \<and> documents (db (with_error_log order e s')) = documents (db s')
             \<and> documents (committed (with_error_log order e s')) = documents (db s')"
    by (simp add: with_error_log_def error_log_def)
  show ?thesis
    using create_shopify_order_caught[of order oid s fw rid e1 s1]
      create_shopify_invoice_caught[of order fw s so rid e2 s2]
      create_shopify_delivery_caught[of order fw s so rid e3 s3]
      sync_sales_order_returns[of order oid fw rid s] keeps logged
    by blast
qed

theorem stage_exceptions_are_caught_witness:
  "create_shopify_order example_fw failing_order None example_state
     = (Inr None, with_error_log failing_order
          (ValidationError ''Tax Account not specified for Shopify Tax GST'')
          (example_state\<lparr>request_id := None\<rparr>))
   \<and> create_shopify_invoice example_fw failing_order example_sales_order None example_state
     = (Inr None, with_error_log failing_order (DoesNotExistError ''SO-Shopify-'')
          (example_state\<lparr>request_id := None\<rparr>))
   \<and> create_shopify_delivery example_fw failing_order example_sales_order None example_state
     = (Inr None, with_error_log failing_order (DoesNotExistError ''SO-Shopify-'')
          (example_state\<lparr>request_id := None\<rparr>))
   \<and> fst (sync_sales_order example_fw failing_order None example_state) = Inr ()
   \<and> consistent (snd (sync_sales_order example_fw failing_order None example_state))"
proof -
  have pre: "o_id failing_order = Some 1001"
    "\<forall>d \<in> set (documents (db example_state)).
            \<not> (doctype d = Sales_Order \<and> docstatus d < 2 \<and> shopify_order_id d = Some 1001)"
    "financial_status failing_order \<in> {Some ''paid'', Some ''refunded''}"
    "truthy_list (fulfillments failing_order)"
    by (simp_all add: failing_order_def fulfilled_order_def example_order_def example_state_def
        example_tables_def truthy_list_def)
  from stage_exceptions_are_caught [where order = failing_order and oid = 1001
      and s = example_state and fw = example_fw and rid = None and so = example_sales_order
      and ?e1.0 = "ValidationError ''Tax Account not specified for Shopify Tax GST''"
      and ?s1.0 = "example_state\<lparr>request_id := None\<rparr>"
      and ?e2.0 = "DoesNotExistError ''SO-Shopify-''"
      and ?s2.0 = "example_state\<lparr>request_id := None\<rparr>"
      and ?e3.0 = "DoesNotExistError ''SO-Shopify-''"
      and ?s3.0 = "example_state\<lparr>request_id := None\<rparr>"]
    pre failing_order_raises example_state_consistent(1)
  show ?thesis by blast
qed

section \<open>Cancelling an order\<close>

text \<open>
  C8. For a payload with an id, \<^verbatim>\<open>cancel_shopify_order\<close> runs the step for Delivery Note,
  then on the resulting session the step for Sales Invoice, then the step for Sales Order, and
  returns normally. Each step looks up the submitted document of its doctype that carries the
  order id; without one it changes nothing; with one it cancels that document, and when the
  cancellation raises, the step still returns normally, having written one Error record with
  the exception to the log (on the rolled-back transaction), so the later doctypes are
  attempted all the same.
\<close>

theorem cancel_shopify_order_in_order:
  assumes "o_id order = Some oid"
  shows "cancel_shopify_order fw order rid s =
           (Inr (),
            snd (cancel_doctype fw order Sales_Order
              (snd (cancel_doctype fw order Sales_Invoice
                (snd (cancel_doctype fw order Delivery_Note
                  (s\<lparr>session_user := ''Administrator'', request_id := rid\<rparr>)))))))
       \<and> (\<forall>dt s0. cancel_doctype fw order dt s0 =
             (Inr (),
              case get_value (db s0) dt (\<lambda>d. docstatus d = 1 \<and> shopify_order_id d = Some oid) of
                None \<Rightarrow> s0
              | Some n \<Rightarrow>
                  (case fails fw (Cancel dt) (db s0) of
                     None \<Rightarrow> s0\<lparr>db := set_docstatus dt n 2 (db s0)\<rparr>
                   | Some e \<Rightarrow>
                       s0\<lparr>db := (committed s0)\<lparr>tabShopify_Log := tabShopify_Log (committed s0)
                                   @ [error_log order e (request_id s0)]\<rparr>,
                          committed := (committed s0)\<lparr>tabShopify_Log := tabShopify_Log (committed s0)
                                   @ [error_log order e (request_id s0)]\<rparr>\<rparr>)))"
proof -
  let ?s0 = "s\<lparr>session_user := ''Administrator'', request_id := rid\<rparr>"
  obtain s1 where 1: "cancel_doctype fw order Delivery_Note ?s0 = (Inr (), s1)"
    using cancel_doctype_run[OF assms] by blast
  obtain s2 where 2: "cancel_doctype fw order Sales_Invoice s1 = (Inr (), s2)"
    using cancel_doctype_run[OF assms] by blast
  obtain s3 where 3: "cancel_doctype fw order Sales_Order s2 = (Inr (), s3)"
    using cancel_doctype_run[OF assms] by blast
  have "cancel_loop fw order [Delivery_Note, Sales_Invoice, Sales_Order] ?s0 = (Inr (), s3)"
    using 1 2 3 by (simp add: seq_def return_def)
  then have "cancel_shopify_order fw order rid s = (Inr (), s3)"
    by (simp add: cancel_shopify_order_def set_user_def set_request_id_def seq_def)
  moreover have "s3 = snd (cancel_doctype fw order Sales_Order
              (snd (cancel_doctype fw order Sales_Invoice
                (snd (cancel_doctype fw order Delivery_Note ?s0)))))"
    using 1 2 3 by simp
  ultimately have "cancel_shopify_order fw order rid s =
           (Inr (),
            snd (cancel_doctype fw order Sales_Order
              (snd (cancel_doctype fw order Sales_Invoice
                (snd (cancel_doctype fw order Delivery_Note
                  (s\<lparr>session_user := ''Administrator'', request_id := rid\<rparr>)))))))"
    by simp
  then show ?thesis using cancel_doctype_run[OF assms] by blast
qed


theorem cancel_shopify_order_in_order_witness:
  "fst (cancel_shopify_order invoice_locked_fw example_order None delivered_state) = Inr ()
   \<and> map docstatus (documents (db (snd (cancel_shopify_order invoice_locked_fw example_order None
         delivered_state)))) = [2, 1, 1]
   \<and> tabShopify_Log (db (snd (cancel_shopify_order invoice_locked_fw example_order None
         delivered_state)))
       = [error_log example_order (FrameworkError ''Sales Invoice is reconciled'') None]
   \<and> fst (cancel_shopify_order example_fw example_order None delivered_state) = Inr ()
   \<and> map docstatus (documents (db (snd (cancel_shopify_order example_fw example_order None
         delivered_state)))) = [2, 2, 2]"
proof -
  have h: "o_id example_order = Some 1001" by (simp add: example_order_def)
  from cancel_shopify_order_in_order [OF h, of invoice_locked_fw None delivered_state]
  have 1: "fst (cancel_shopify_order invoice_locked_fw example_order None delivered_state) = Inr ()"
    by simp
  from cancel_shopify_order_in_order [OF h, of example_fw None delivered_state]
  have 2: "fst (cancel_shopify_order example_fw example_order None delivered_state) = Inr ()"
    by simp
  from 1 2 example_cancel show ?thesis by simp
qed

section \<open>The discount of a Sales Order\<close>



section \<open>Reusing an existing Sales Order\<close>

text \<open>
  C10. When a Sales Order that is not cancelled already carries the external order id,
  \<^verbatim>\<open>create_shopify_order\<close> returns the stored Sales Order of that name and changes nothing
  but the ambient request id, which it sets to its own argument: the tables of the running
  transaction and the committed tables stay as they are, so no customer or item is validated
  or created and no log record, Success or Error, is written.
\<close>

theorem create_shopify_order_reuses_existing:
  assumes "o_id order = Some oid"
    and "d \<in> set (documents (db s))"
    and "doctype d = Sales_Order" and "docstatus d < 2" and "shopify_order_id d = Some oid"
  shows "\<exists>so. create_shopify_order fw order rid s = (Inr (Some so), s\<lparr>request_id := rid\<rparr>)
           \<and> so \<in> set (documents (db s)) \<and> doctype so = Sales_Order
           \<and> (\<exists>d' \<in> set (documents (db s)). doctype d' = Sales_Order \<and> docstatus d' < 2
                 \<and> shopify_order_id d' = Some oid \<and> name so = name d')"
proof -
  let ?P = "\<lambda>d. doctype d = Sales_Order \<and> docstatus d < 2 \<and> field_is (shopify_order_id d) (Some oid)"
  have "?P d" using assms by (simp add: field_is_def)
  then obtain d0 where d0: "find ?P (documents (db s)) = Some d0"
    using assms(2) by (cases "find ?P (documents (db s))") (auto simp: find_None_iff)
  then have d0P: "?P d0" and d0in: "d0 \<in> set (documents (db s))"
    by (auto simp: find_Some_iff)
  obtain so where so: "find (\<lambda>x. doctype x = Sales_Order \<and> name x = name d0) (documents (db s)) = Some so"
    using d0P d0in by (cases "find (\<lambda>x. doctype x = Sales_Order \<and> name x = name d0) (documents (db s))")
      (auto simp: find_None_iff)
  then have soP: "doctype so = Sales_Order" "name so = name d0" "so \<in> set (documents (db s))"
    by (auto simp: find_Some_iff)
  have "create_shopify_order fw order rid s = (Inr (Some so), s\<lparr>request_id := rid\<rparr>)"
    using assms(1) d0 so
    by (simp add: create_shopify_order_def get_single_def set_request_id_def seq_def reading_def
        subscript_def get_value_def get_doc_def return_def)
  then show ?thesis using soP d0P d0in by (auto simp: field_is_def)
qed

theorem create_shopify_order_reuses_existing_witness:
  "\<exists>so. create_shopify_order example_fw example_order None state_with_order
            = (Inr (Some so), state_with_order\<lparr>request_id := None\<rparr>)
         \<and> so \<in> set (documents (db state_with_order)) \<and> doctype so = Sales_Order
         \<and> (\<exists>d' \<in> set (documents (db state_with_order)). doctype d' = Sales_Order \<and> docstatus d' < 2
               \<and> shopify_order_id d' = Some 1001 \<and> name so = name d')"
  using create_shopify_order_reuses_existing [of example_order 1001 example_sales_order
      state_with_order example_fw None]
  by (simp add: example_order_def state_with_order_def example_sales_order_def new_document_def)


end
